theory Spec2Isabelle
  imports Complex_Main "HOL-Library.Word"
begin

section \<open>Data model\<close>

text \<open>
  The embedding follows \<^verbatim>\<open>src/libNode/ViewChangeBlockProcessing.cpp\<close>. Classes
  declared in headers outside the file (keys, signatures, hashes, peers, blocks) are
  modelled by what the file uses of them: equality and their getters.
\<close>

type_synonym bytes = "8 word list"

datatype PubKey = PubKey bytes
datatype Signature = Signature bytes
datatype BlockHash = BlockHash bytes
datatype CommitteeHash = CommitteeHash bytes

text \<open>
  Modelled from the spec: class \<^verbatim>\<open>Peer\<close> is declared outside the file; a peer is
  an address and a port, and the default-constructed \<^verbatim>\<open>Peer()\<close> is the zero peer
  sentinel \<^verbatim>\<open>0.0.0.0:0\<close>.
\<close>

datatype Peer = Peer (m_ipAddress: "128 word") (m_listenPortHost: "32 word")

definition Peer0 :: Peer where
  "Peer0 = Peer 0 0"

type_synonym PairOfNode = "PubKey \<times> Peer"
type_synonym DequeOfNode = "PairOfNode list"

record VCBlockHeader =
  GetVersion :: "32 word"
  GetViewChangeDSEpochNo :: "64 word"
  GetViewChangeEpochNo :: "64 word"
  GetViewChangeState :: "8 word"
  GetCandidateLeaderNetworkInfo :: Peer
  GetCandidateLeaderPubKey :: PubKey
  GetFaultyLeaders :: "PairOfNode list"
  GetCommitteeHash :: CommitteeHash
  GetPrevHash :: BlockHash

record VCBlock =
  GetHeader :: VCBlockHeader
  GetCS1 :: Signature
  GetB1 :: "bool list"
  GetCS2 :: Signature
  GetB2 :: "bool list"
  GetTimestamp :: "64 word"
  GetBlockHash :: BlockHash

datatype BlockType = TX | DS | VC

record BlockLink =
  link_index :: "64 word"
  link_ds_epoch :: "64 word"
  link_type :: BlockType
  link_hash :: BlockHash

type_synonym BlockStorage = "BlockHash \<rightharpoonup> bytes"

text \<open>
  The configuration constants of \<^verbatim>\<open>common/Constants.h\<close>, which is outside the
  file, are parameters. \<^verbatim>\<open>cluster_size\<close> is declared \<^verbatim>\<open>unsigned int\<close> in the file
  and is initialised from, compared with and assigned from the fan-out constants, which
  are taken at the same width.
\<close>

record Constants =
  VCBLOCK_VERSION :: "32 word"
  GUARD_MODE :: bool
  LOOKUP_NODE_MODE :: bool
  BROADCAST_TREEBASED_CLUSTER_MODE :: bool
  NUM_FORWARDED_BLOCK_RECEIVERS_PER_SHARD :: "32 word"
  NUM_DS_ELECTION :: "32 word"
  NUM_OF_TREEBASED_CHILD_CLUSTERS :: "32 word"
  CONSENSUS_OBJECT_TIMEOUT :: "32 word"
  VIEWCHANGE_TIME :: "32 word"
  VIEWCHANGE_PRECHECK_TIME :: "32 word"
  VIEWCHANGE_EXTRA_TIME :: "32 word"
  MessageType_NODE :: "8 word"
  NodeInstructionType_VCBLOCK :: "8 word"
  MessageOffset_BODY :: nat

text \<open>
  The collaborators the file calls and does not define (codec, crypto, clock, chain and
  storage back ends) are parameters as well: one field per function called.
  \<^verbatim>\<open>SerializeHeader\<close>, \<^verbatim>\<open>SerializeSignature\<close>, \<^verbatim>\<open>EncodeBitVector\<close> and
  \<^verbatim>\<open>SerializeVCBlock\<close> give the bytes that the corresponding \<^verbatim>\<open>Serialize(dst, offset)\<close>
  or \<^verbatim>\<open>SetBitVector(dst, offset, v)\<close> call writes into \<^verbatim>\<open>dst\<close> at \<^verbatim>\<open>offset\<close>.
\<close>

record Collaborators =
  GetNodeVCBlock :: "bytes \<Rightarrow> nat \<Rightarrow> VCBlock option"
  SetNodeVCBlock :: "bytes \<Rightarrow> nat \<Rightarrow> VCBlock \<Rightarrow> bytes option"
  IsDSBlockVCState :: "8 word \<Rightarrow> bool"
  CheckWhetherBlockIsLatest :: "64 word \<Rightarrow> 64 word \<Rightarrow> bool"
  GetMyHash :: "VCBlockHeader \<Rightarrow> BlockHash"
  VerifyTimestamp :: "64 word \<Rightarrow> 32 word \<Rightarrow> bool"
  GetDSCommitteeHash :: "DequeOfNode \<Rightarrow> CommitteeHash option"
  AggregatePubKeys :: "PubKey list \<Rightarrow> PubKey option"
  SerializeHeader :: "VCBlockHeader \<Rightarrow> bytes option"
  SerializeSignature :: "Signature \<Rightarrow> bytes"
  EncodeBitVector :: "bool list \<Rightarrow> bytes"
  MultiSigVerify :: "bytes \<Rightarrow> nat \<Rightarrow> nat \<Rightarrow> Signature \<Rightarrow> PubKey \<Rightarrow> bool"
  SerializeVCBlock :: "VCBlock \<Rightarrow> bytes"
  PutVCBlock :: "BlockStorage \<Rightarrow> BlockHash \<Rightarrow> bytes \<Rightarrow> bool \<times> BlockStorage"
  GetLatestIndex :: "BlockLink list \<Rightarrow> 64 word"

text \<open>
  The part of the mediator and of the block storage singleton that the file reads and
  writes. \<^verbatim>\<open>m_selfKey\<close> holds the public half (\<^verbatim>\<open>m_selfKey.second\<close>).
\<close>

record Mediator =
  m_DSCommittee :: DequeOfNode
  m_blocklinkchain :: "BlockLink list"
  m_blockStorage :: BlockStorage
  m_currentEpochNum :: "64 word"
  m_selfKey :: PubKey

section \<open>Co-signature verification\<close>

text \<open>
  Modelled from the spec: \<^verbatim>\<open>ConsensusCommon::NumForConsensus\<close> is defined outside the
  file; the spec gives it as the ceiling of \<open>2n/3\<close>, plus one.
\<close>

definition NumForConsensus :: "nat \<Rightarrow> nat" where
  "NumForConsensus n = (2 * n + 2) div 3 + 1"

text \<open>\<^verbatim>\<open>std::vector::at\<close>: the element, or \<open>None\<close> where the C++ throws.\<close>

definition vector_at :: "'a list \<Rightarrow> nat \<Rightarrow> 'a option" where
  "vector_at xs i = (if i < length xs then Some (xs ! i) else None)"

text \<open>
  The loop of \<^verbatim>\<open>VerifyVCBlockCoSignature\<close> over the committee, carrying \<^verbatim>\<open>index\<close>,
  \<^verbatim>\<open>keys\<close> and \<^verbatim>\<open>count\<close>. Both counters are \<^verbatim>\<open>unsigned int\<close> and bounded by the
  number of committee members held in memory, so they cannot wrap for a committee of
  fewer than \<open>2 ^ 32\<close> members; they are naturals here.
\<close>

fun signer_loop ::
  "DequeOfNode \<Rightarrow> bool list \<Rightarrow> nat \<Rightarrow> PubKey list \<Rightarrow> nat \<Rightarrow> (PubKey list \<times> nat) option"
where
  "signer_loop [] B2 index keys count = Some (keys, count)"
| "signer_loop (kv # rest) B2 index keys count =
     (case vector_at B2 index of
        None \<Rightarrow> None
      | Some b \<Rightarrow>
          if b then signer_loop rest B2 (index + 1) (keys @ [fst kv]) (count + 1)
          else signer_loop rest B2 (index + 1) keys count)"

text \<open>
  \<^verbatim>\<open>Serialize(dst, offset)\<close> and \<^verbatim>\<open>SetBitVector(dst, offset, v)\<close> overwrite \<^verbatim>\<open>dst\<close>
  from \<^verbatim>\<open>offset\<close> on and grow it as needed.
\<close>

definition write_at :: "bytes \<Rightarrow> nat \<Rightarrow> bytes \<Rightarrow> bytes" where
  "write_at dst offset src =
     take offset dst @ replicate (offset - length dst) 0 @ src
       @ drop (offset + length src) dst"

definition VerifyVCBlockCoSignature ::
  "Collaborators \<Rightarrow> DequeOfNode \<Rightarrow> VCBlock \<Rightarrow> bool"
where
  "VerifyVCBlockCoSignature env dsComm vcblock =
     (let B2 = GetB2 vcblock in
      if length dsComm \<noteq> length B2 then False
      else
        (case signer_loop dsComm B2 0 [] 0 of
           None \<Rightarrow> False
         | Some (keys, count) \<Rightarrow>
             if count \<noteq> NumForConsensus (length B2) then False
             else
               (case AggregatePubKeys env keys of
                  None \<Rightarrow> False
                | Some aggregatedKey \<Rightarrow>
                    (case SerializeHeader env (GetHeader vcblock) of
                       None \<Rightarrow> False
                     | Some hdr \<Rightarrow>
                         let message = write_at [] 0 hdr in
                         let message = write_at message (length message)
                                         (SerializeSignature env (GetCS1 vcblock)) in
                         let message = write_at message (length message)
                                         (EncodeBitVector env (GetB1 vcblock))
                         in MultiSigVerify env message 0 (length message)
                              (GetCS2 vcblock) aggregatedKey))))"

text \<open>
  The spec's wording of the two quantities, to compare with the loop: the number of
  set bits of a bitmap, and the committee keys a bitmap selects, in committee order.
\<close>

definition popcount :: "bool list \<Rightarrow> nat" where
  "popcount bs = length (filter (\<lambda>b. b) bs)"

definition selected_keys :: "DequeOfNode \<Rightarrow> bool list \<Rightarrow> PubKey list" where
  "selected_keys dsComm bs = map (\<lambda>(kv, b). fst kv) (filter snd (zip dsComm bs))"

definition signed_message :: "Collaborators \<Rightarrow> VCBlock \<Rightarrow> bytes option" where
  "signed_message env vcblock =
     (case SerializeHeader env (GetHeader vcblock) of
        None \<Rightarrow> None
      | Some hdr \<Rightarrow>
          Some (hdr @ SerializeSignature env (GetCS1 vcblock)
                  @ EncodeBitVector env (GetB1 vcblock)))"

section \<open>Committee mutation\<close>

text \<open>
  \<^verbatim>\<open>std::find_if\<close> over the deque: the position of the first element that satisfies
  the predicate, \<open>None\<close> for the end iterator. \<^verbatim>\<open>std::find\<close> is the search for an
  equal element, and \<^verbatim>\<open>erase\<close> removes the element at a position.
\<close>

fun std_find_if :: "('a \<Rightarrow> bool) \<Rightarrow> 'a list \<Rightarrow> nat option" where
  "std_find_if P [] = None"
| "std_find_if P (x # xs) =
     (if P x then Some 0 else map_option Suc (std_find_if P xs))"

definition std_find :: "'a \<Rightarrow> 'a list \<Rightarrow> nat option" where
  "std_find v xs = std_find_if (\<lambda>x. x = v) xs"

definition erase :: "nat \<Rightarrow> 'a list \<Rightarrow> 'a list" where
  "erase i xs = take i xs @ drop (Suc i) xs"

text \<open>
  The tail of both loop bodies: erase the element found, if one was found (the other
  branch only logs), then \<^verbatim>\<open>emplace_back\<close> the faulty leader.
\<close>

definition eject :: "nat option \<Rightarrow> PairOfNode \<Rightarrow> DequeOfNode \<Rightarrow> DequeOfNode" where
  "eject it faultyLeader dsComm =
     (case it of Some i \<Rightarrow> erase i dsComm | None \<Rightarrow> dsComm) @ [faultyLeader]"

fun UpdateDSCommitee_loop :: "PubKey \<Rightarrow> PairOfNode list \<Rightarrow> DequeOfNode \<Rightarrow> DequeOfNode" where
  "UpdateDSCommitee_loop selfKey [] dsComm = dsComm"
| "UpdateDSCommitee_loop selfKey (faultyLeader # rest) dsComm =
     (let it =
        (if fst faultyLeader = selfKey \<and> snd faultyLeader = Peer0
         then std_find (fst faultyLeader, Peer0) dsComm
         else std_find faultyLeader dsComm)
      in UpdateDSCommitee_loop selfKey rest (eject it faultyLeader dsComm))"

definition UpdateDSCommiteeCompositionAfterVC ::
  "Constants \<Rightarrow> PubKey \<Rightarrow> VCBlock \<Rightarrow> DequeOfNode \<Rightarrow> DequeOfNode"
where
  "UpdateDSCommiteeCompositionAfterVC cfg selfKey vcblock dsComm =
     (if GUARD_MODE cfg then dsComm
      else UpdateDSCommitee_loop selfKey (GetFaultyLeaders (GetHeader vcblock)) dsComm)"

fun UpdateRetrieveDSCommitee_loop :: "PairOfNode list \<Rightarrow> DequeOfNode \<Rightarrow> DequeOfNode" where
  "UpdateRetrieveDSCommitee_loop [] dsComm = dsComm"
| "UpdateRetrieveDSCommitee_loop (faultyLeader # rest) dsComm =
     (let it = std_find_if (\<lambda>p. fst p = fst faultyLeader) dsComm
      in UpdateRetrieveDSCommitee_loop rest (eject it faultyLeader dsComm))"

definition UpdateRetrieveDSCommiteeCompositionAfterVC ::
  "Constants \<Rightarrow> VCBlock \<Rightarrow> DequeOfNode \<Rightarrow> DequeOfNode"
where
  "UpdateRetrieveDSCommiteeCompositionAfterVC cfg vcblock dsComm =
     (if GUARD_MODE cfg then dsComm
      else UpdateRetrieveDSCommitee_loop (GetFaultyLeaders (GetHeader vcblock)) dsComm)"

section \<open>Fan-out\<close>

text \<open>
  \<^verbatim>\<open>SendVCBlockToOtherShardNodes\<close>: the result is what the function hands to
  \<^verbatim>\<open>SendBlockToOtherShardNodes\<close> (the message, the cluster size and the number of child
  clusters). \<^verbatim>\<open>cluster_size\<close> is an \<^verbatim>\<open>unsigned int\<close>: the addition wraps.
\<close>

definition SendVCBlockToOtherShardNodes ::
  "Constants \<Rightarrow> bytes \<Rightarrow> bytes \<times> 32 word \<times> 32 word"
where
  "SendVCBlockToOtherShardNodes cfg vcblock_message =
     (let cluster_size = NUM_FORWARDED_BLOCK_RECEIVERS_PER_SHARD cfg in
      let cluster_size =
        (if cluster_size \<le> NUM_DS_ELECTION cfg then NUM_DS_ELECTION cfg + 1
         else cluster_size)
      in (vcblock_message, cluster_size, NUM_OF_TREEBASED_CHILD_CLUSTERS cfg))"

section \<open>The validation and apply pipeline\<close>

text \<open>
  Modelled from the spec: \<^verbatim>\<open>BlockStorage::GetVCBlock\<close> and
  \<^verbatim>\<open>BlockLinkChain::AddBlockLink\<close> are defined outside the file. The store is a
  key-value mapping and \<^verbatim>\<open>get_vc_block(hash)\<close> is its lookup; the chain is an
  append-only log whose \<^verbatim>\<open>add\<close> enforces \<^verbatim>\<open>index == latest_index() + 1\<close>.
\<close>

definition GetVCBlock :: "BlockStorage \<Rightarrow> BlockHash \<Rightarrow> bytes option" where
  "GetVCBlock store h = store h"

definition AddBlockLink ::
  "Collaborators \<Rightarrow> BlockLink list \<Rightarrow> 64 word \<Rightarrow> 64 word \<Rightarrow> BlockType \<Rightarrow> BlockHash
     \<Rightarrow> BlockLink list"
where
  "AddBlockLink env chain i dsindex blocktype blockhash =
     (if i = GetLatestIndex env chain + 1
      then chain @ [\<lparr>link_index = i, link_ds_epoch = dsindex, link_type = blocktype,
                      link_hash = blockhash\<rparr>]
      else chain)"

text \<open>
  \<^verbatim>\<open>ProcessVCBlockCore\<close>: the result is the returned flag and the mediator afterwards.
  Logging is left out.
\<close>

definition ProcessVCBlockCore ::
  "Constants \<Rightarrow> Collaborators \<Rightarrow> Mediator \<Rightarrow> VCBlock \<Rightarrow> bool \<times> Mediator"
where
  "ProcessVCBlockCore cfg env s vcblock =
     (if GetViewChangeEpochNo (GetHeader vcblock) \<noteq> m_currentEpochNum s then (False, s)
      else if \<not> CheckWhetherBlockIsLatest env
                  (GetViewChangeDSEpochNo (GetHeader vcblock))
                  (GetViewChangeEpochNo (GetHeader vcblock)) then (False, s)
      else
        let temp_blockHash = GetMyHash env (GetHeader vcblock) in
        if temp_blockHash \<noteq> GetBlockHash vcblock then (False, s)
        else if GetVCBlock (m_blockStorage s) temp_blockHash \<noteq> None then (False, s)
        else if \<not> VerifyTimestamp env (GetTimestamp vcblock)
                    (CONSENSUS_OBJECT_TIMEOUT cfg + VIEWCHANGE_TIME cfg
                       + VIEWCHANGE_PRECHECK_TIME cfg + VIEWCHANGE_EXTRA_TIME cfg)
          then (False, s)
        else
          (case GetDSCommitteeHash env (m_DSCommittee s) of
             None \<Rightarrow> (False, s)
           | Some committeeHash \<Rightarrow>
               if committeeHash \<noteq> GetCommitteeHash (GetHeader vcblock) then (False, s)
               else if \<not> VerifyVCBlockCoSignature env (m_DSCommittee s) vcblock
                 then (False, s)
               else
                 let latestInd = GetLatestIndex env (m_blocklinkchain s) + 1 in
                 let s = s\<lparr>m_blocklinkchain :=
                            AddBlockLink env (m_blocklinkchain s) latestInd
                              (GetViewChangeDSEpochNo (GetHeader vcblock)) VC
                              (GetBlockHash vcblock)\<rparr> in
                 let dst = write_at [] 0 (SerializeVCBlock env vcblock) in
                 let (stored, store) =
                       PutVCBlock env (m_blockStorage s) (GetBlockHash vcblock) dst in
                 let s = s\<lparr>m_blockStorage := store\<rparr> in
                 if \<not> stored then (False, s)
                 else
                   (True, s\<lparr>m_DSCommittee :=
                              UpdateDSCommiteeCompositionAfterVC cfg (m_selfKey s) vcblock
                                (m_DSCommittee s)\<rparr>)))"

text \<open>
  \<^verbatim>\<open>ProcessVCBlock\<close>: the returned flag, the mediator afterwards, and what was handed
  to the broadcast subsystem (nothing, or one message with its cluster parameters).
\<close>

definition ProcessVCBlock ::
  "Constants \<Rightarrow> Collaborators \<Rightarrow> Mediator \<Rightarrow> bytes \<Rightarrow> nat
     \<Rightarrow> bool \<times> Mediator \<times> (bytes \<times> 32 word \<times> 32 word) list"
where
  "ProcessVCBlock cfg env s message cur_offset =
     (case GetNodeVCBlock env message cur_offset of
        None \<Rightarrow> (False, s, [])
      | Some vcblock \<Rightarrow>
          if GetVersion (GetHeader vcblock) \<noteq> VCBLOCK_VERSION cfg then (False, s, [])
          else if IsDSBlockVCState env (GetViewChangeState (GetHeader vcblock))
            then (False, s, [])
          else
            (case ProcessVCBlockCore cfg env s vcblock of
               (False, s') \<Rightarrow> (False, s', [])
             | (True, s') \<Rightarrow>
                 if \<not> LOOKUP_NODE_MODE cfg \<and> BROADCAST_TREEBASED_CLUSTER_MODE cfg then
                   (let message2 = [MessageType_NODE cfg, NodeInstructionType_VCBLOCK cfg] in
                    case SetNodeVCBlock env message2 (MessageOffset_BODY cfg) vcblock of
                      None \<Rightarrow> (True, s', [])
                    | Some message2 \<Rightarrow>
                        (True, s', [SendVCBlockToOtherShardNodes cfg message2]))
                 else (True, s', [])))"

text \<open>
  The gates of the pipeline as predicates on its inputs, for stating what acceptance
  and rejection mean: the seven checks of \<^verbatim>\<open>ProcessVCBlockCore\<close> (epoch equality,
  freshness, self-hash, duplicate, timestamp, committee hash, co-signature), and
  before them the version and state-tag checks of \<^verbatim>\<open>ProcessVCBlock\<close>.
\<close>

definition core_gates_pass :: "Constants \<Rightarrow> Collaborators \<Rightarrow> Mediator \<Rightarrow> VCBlock \<Rightarrow> bool" where
  "core_gates_pass cfg env s vcblock \<longleftrightarrow>
     GetViewChangeEpochNo (GetHeader vcblock) = m_currentEpochNum s \<and>
     CheckWhetherBlockIsLatest env (GetViewChangeDSEpochNo (GetHeader vcblock))
       (GetViewChangeEpochNo (GetHeader vcblock)) \<and>
     GetMyHash env (GetHeader vcblock) = GetBlockHash vcblock \<and>
     GetVCBlock (m_blockStorage s) (GetMyHash env (GetHeader vcblock)) = None \<and>
     VerifyTimestamp env (GetTimestamp vcblock)
       (CONSENSUS_OBJECT_TIMEOUT cfg + VIEWCHANGE_TIME cfg
          + VIEWCHANGE_PRECHECK_TIME cfg + VIEWCHANGE_EXTRA_TIME cfg) \<and>
     GetDSCommitteeHash env (m_DSCommittee s) = Some (GetCommitteeHash (GetHeader vcblock)) \<and>
     VerifyVCBlockCoSignature env (m_DSCommittee s) vcblock"

definition validation_gates_pass ::
  "Constants \<Rightarrow> Collaborators \<Rightarrow> Mediator \<Rightarrow> VCBlock \<Rightarrow> bool"
where
  "validation_gates_pass cfg env s vcblock \<longleftrightarrow>
     GetVersion (GetHeader vcblock) = VCBLOCK_VERSION cfg \<and>
     \<not> IsDSBlockVCState env (GetViewChangeState (GetHeader vcblock)) \<and>
     core_gates_pass cfg env s vcblock"

text \<open>The link that \<^verbatim>\<open>ProcessVCBlockCore\<close> appends for a block.\<close>

definition vc_block_link :: "Collaborators \<Rightarrow> Mediator \<Rightarrow> VCBlock \<Rightarrow> BlockLink" where
  "vc_block_link env s vcblock =
     \<lparr>link_index = GetLatestIndex env (m_blocklinkchain s) + 1,
      link_ds_epoch = GetViewChangeDSEpochNo (GetHeader vcblock),
      link_type = VC, link_hash = GetBlockHash vcblock\<rparr>"

section \<open>Difficulty retarget\<close>

text \<open>
  Modelled from the spec: \<^verbatim>\<open>DirectoryService::CalculateNewDifficultyCore\<close> is defined
  outside the file, which holds only the test that calls it. The definition follows the
  prose of the spec's section 4.6: a step up when the submissions exceed the expected
  count by the threshold percentage and the current nodes reach the expected count, a
  step down (not below the minimum) when they fall short by it and the current nodes
  are below the expected count, one more step at each multiple of the calibration
  period, and the result clamped to the minimum and 255. The percentages use C++
  integer division, which truncates; a zero divisor has no result.
\<close>

definition truncated_div :: "int \<Rightarrow> int \<Rightarrow> int" where
  "truncated_div a b =
     (if (a < 0) = (b < 0) then \<bar>a\<bar> div \<bar>b\<bar> else - (\<bar>a\<bar> div \<bar>b\<bar>))"

definition CalculateNewDifficultyCore ::
  "int \<Rightarrow> int \<Rightarrow> int \<Rightarrow> int \<Rightarrow> int \<Rightarrow> int \<Rightarrow> int \<Rightarrow> int \<Rightarrow> int option"
where
  "CalculateNewDifficultyCore currentDifficulty minDifficulty currentNodes powSubmissions
       expectedNodes adjustThreshold currentEpochNum numBlocksPerYear =
     (if expectedNodes = 0 \<or> numBlocksPerYear = 0 then None
      else
        let delta = powSubmissions - expectedNodes in
        let up = (truncated_div (delta * 100) expectedNodes \<ge> adjustThreshold
                    \<and> currentNodes \<ge> expectedNodes) in
        let down = (truncated_div (- delta * 100) expectedNodes \<ge> adjustThreshold
                      \<and> currentNodes < expectedNodes) in
        let d = (if up then currentDifficulty + 1
                 else if down then max (currentDifficulty - 1) minDifficulty
                 else currentDifficulty) in
        let d = (if currentEpochNum mod numBlocksPerYear = 0 then d + 1 else d)
        in Some (max minDifficulty (min 255 d)))"

section \<open>A concrete node\<close>

text \<open>
  A small instance on which the theorems below are exercised: a committee of six, toy
  collaborators (a key aggregate is the concatenation of the keys' bytes, and a
  signature verifies when it is the aggregate's bytes followed by the signed bytes),
  and one view-change block that the instance accepts.
\<close>

definition key_bytes :: "PubKey \<Rightarrow> bytes" where
  "key_bytes k = (case k of PubKey b \<Rightarrow> b)"

definition sig_bytes :: "Signature \<Rightarrow> bytes" where
  "sig_bytes g = (case g of Signature b \<Rightarrow> b)"

definition example_cfg :: Constants where
  "example_cfg =
     \<lparr>VCBLOCK_VERSION = 1, GUARD_MODE = False, LOOKUP_NODE_MODE = False,
      BROADCAST_TREEBASED_CLUSTER_MODE = True,
      NUM_FORWARDED_BLOCK_RECEIVERS_PER_SHARD = 10, NUM_DS_ELECTION = 3,
      NUM_OF_TREEBASED_CHILD_CLUSTERS = 2,
      CONSENSUS_OBJECT_TIMEOUT = 10, VIEWCHANGE_TIME = 20, VIEWCHANGE_PRECHECK_TIME = 5,
      VIEWCHANGE_EXTRA_TIME = 15,
      MessageType_NODE = 2, NodeInstructionType_VCBLOCK = 7, MessageOffset_BODY = 2\<rparr>"

definition example_committee :: DequeOfNode where
  "example_committee =
     [(PubKey [1], Peer 1 1), (PubKey [2], Peer 2 2), (PubKey [3], Peer 3 3),
      (PubKey [4], Peer 4 4), (PubKey [5], Peer 5 5), (PubKey [6], Peer 6 6)]"

definition example_header :: VCBlockHeader where
  "example_header =
     \<lparr>GetVersion = 1, GetViewChangeDSEpochNo = 4, GetViewChangeEpochNo = 40,
      GetViewChangeState = 0, GetCandidateLeaderNetworkInfo = Peer 3 3,
      GetCandidateLeaderPubKey = PubKey [3],
      GetFaultyLeaders = [(PubKey [2], Peer 2 2)],
      GetCommitteeHash = CommitteeHash [6], GetPrevHash = BlockHash [0]\<rparr>"

definition example_block :: VCBlock where
  "example_block =
     \<lparr>GetHeader = example_header, GetCS1 = Signature [7],
      GetB1 = [True, True, True, True, True, False],
      GetCS2 = Signature [1, 2, 3, 4, 5, 1, 7, 1, 1, 1, 1, 1, 0],
      GetB2 = [True, True, True, True, True, False],
      GetTimestamp = 50, GetBlockHash = BlockHash [1, 40]\<rparr>"

definition example_frame :: bytes where
  "example_frame = [2, 7, 99]"

definition example_env :: Collaborators where
  "example_env =
     \<lparr>GetNodeVCBlock =
        (\<lambda>message cur_offset.
           if drop cur_offset message = [99] then Some example_block else None),
      SetNodeVCBlock = (\<lambda>dst offset vcblock. Some (write_at dst offset [99])),
      IsDSBlockVCState = (\<lambda>st. st = 3),
      CheckWhetherBlockIsLatest = (\<lambda>ds tx. ds = 4 \<and> tx = 40),
      GetMyHash = (\<lambda>h. BlockHash [ucast (GetVersion h), ucast (GetViewChangeEpochNo h)]),
      VerifyTimestamp = (\<lambda>ts tolerance. ts \<le> ucast tolerance),
      GetDSCommitteeHash = (\<lambda>c. Some (CommitteeHash [of_nat (length c)])),
      AggregatePubKeys =
        (\<lambda>keys. if keys = [] then None else Some (PubKey (concat (map key_bytes keys)))),
      SerializeHeader = (\<lambda>h. Some [ucast (GetVersion h)]),
      SerializeSignature = sig_bytes,
      EncodeBitVector = map (\<lambda>b. if b then 1 else 0),
      MultiSigVerify =
        (\<lambda>message offset size g k.
           sig_bytes g = key_bytes k @ take size (drop offset message)),
      SerializeVCBlock = (\<lambda>vcblock. [99]),
      PutVCBlock = (\<lambda>store h b. (True, store(h \<mapsto> b))),
      GetLatestIndex =
        (\<lambda>chain. case chain of [] \<Rightarrow> 0 | l # ls \<Rightarrow> link_index (last chain))\<rparr>"

definition example_node :: Mediator where
  "example_node =
     \<lparr>m_DSCommittee = example_committee, m_blocklinkchain = [],
      m_blockStorage = Map.empty, m_currentEpochNum = 40, m_selfKey = PubKey [1]\<rparr>"

text \<open>
  Variants of the instance: a block whose first bitmap is empty, with a second-round
  signature over the message that this bitmap gives, and the decoder that yields it.
\<close>

definition example_block_short_b1 :: VCBlock where
  "example_block_short_b1 =
     example_block\<lparr>GetB1 := [], GetCS2 := Signature [1, 2, 3, 4, 5, 1, 7]\<rparr>"

definition example_env_short_b1 :: Collaborators where
  "example_env_short_b1 =
     example_env\<lparr>GetNodeVCBlock :=
       (\<lambda>message cur_offset.
          if drop cur_offset message = [99] then Some example_block_short_b1 else None)\<rparr>"

text \<open>
  More variants: a block with four signers in the second bitmap (one fewer than the
  threshold for six), a store whose write fails, and an encoder that fails.
\<close>

definition example_block_four_signers :: VCBlock where
  "example_block_four_signers =
     example_block\<lparr>GetB2 := [True, True, True, True, False, False]\<rparr>"

definition example_env_four_signers :: Collaborators where
  "example_env_four_signers =
     example_env\<lparr>GetNodeVCBlock :=
       (\<lambda>message cur_offset.
          if drop cur_offset message = [99] then Some example_block_four_signers
          else None)\<rparr>"

definition example_env_put_fails :: Collaborators where
  "example_env_put_fails = example_env\<lparr>PutVCBlock := (\<lambda>store h b. (False, store))\<rparr>"

definition example_env_encode_fails :: Collaborators where
  "example_env_encode_fails =
     example_env\<lparr>SetNodeVCBlock := (\<lambda>dst offset vcblock. None)\<rparr>"

text \<open>The node after it has accepted the example block.\<close>

definition example_node_after :: Mediator where
  "example_node_after =
     \<lparr>m_DSCommittee =
        [(PubKey [1], Peer 1 1), (PubKey [3], Peer 3 3), (PubKey [4], Peer 4 4),
         (PubKey [5], Peer 5 5), (PubKey [6], Peer 6 6), (PubKey [2], Peer 2 2)],
      m_blocklinkchain =
        [\<lparr>link_index = 1, link_ds_epoch = 4, link_type = VC,
           link_hash = BlockHash [1, 40]\<rparr>],
      m_blockStorage = [BlockHash [1, 40] \<mapsto> [99]],
      m_currentEpochNum = 40, m_selfKey = PubKey [1]\<rparr>"

text \<open>
  The example block with another list of faulty leaders, and a committee of five in
  which the node itself stands second, under the zero peer.
\<close>

definition block_with_faulty :: "PairOfNode list \<Rightarrow> VCBlock" where
  "block_with_faulty fs = example_block\<lparr>GetHeader := example_header\<lparr>GetFaultyLeaders := fs\<rparr>\<rparr>"

definition node_A :: PairOfNode where "node_A = (PubKey [5], Peer 5 5)"
definition node_B :: PairOfNode where "node_B = (PubKey [1], Peer 0 0)"
definition node_C :: PairOfNode where "node_C = (PubKey [3], Peer 3 3)"
definition node_D :: PairOfNode where "node_D = (PubKey [4], Peer 4 4)"
definition node_E :: PairOfNode where "node_E = (PubKey [6], Peer 6 6)"

section \<open>Co-signature verification: the loop and the threshold\<close>

lemma write_at_end: "write_at dst (length dst) src = dst @ src"
  by (simp add: write_at_def)

lemma write_at_empty: "write_at [] 0 src = src"
  by (simp add: write_at_def)

text \<open>
  The loop never reads the bitmap out of range once the sizes have been compared, and
  it returns the selected keys and the number of set bits.
\<close>

lemma signer_loop_drop:
  "index + length dsComm \<le> length B2 \<Longrightarrow>
   signer_loop dsComm B2 index keys count =
     Some (keys @ selected_keys dsComm (drop index B2),
           count + popcount (take (length dsComm) (drop index B2)))"
proof (induction dsComm arbitrary: index keys count)
  case Nil
  then show ?case by (simp add: selected_keys_def popcount_def)
next
  case (Cons kv rest)
  then have lt: "index < length B2" by simp
  then have d: "drop index B2 = B2 ! index # drop (Suc index) B2"
    by (simp add: Cons_nth_drop_Suc)
  from Cons.prems have le: "Suc index + length rest \<le> length B2" by simp
  show ?case
    using lt Cons.IH [OF le]
    by (simp add: vector_at_def d selected_keys_def popcount_def)
qed

lemma signer_loop_eq:
  assumes "length dsComm = length B2"
  shows "signer_loop dsComm B2 0 [] 0 = Some (selected_keys dsComm B2, popcount B2)"
  using signer_loop_drop [of 0 dsComm B2 "[]" 0] assms by simp

lemma VerifyVCBlockCoSignature_iff:
  "VerifyVCBlockCoSignature env dsComm vcblock \<longleftrightarrow>
     length dsComm = length (GetB2 vcblock) \<and>
     popcount (GetB2 vcblock) = NumForConsensus (length (GetB2 vcblock)) \<and>
     (\<exists>aggregatedKey message.
        AggregatePubKeys env (selected_keys dsComm (GetB2 vcblock)) = Some aggregatedKey \<and>
        signed_message env vcblock = Some message \<and>
        MultiSigVerify env message 0 (length message) (GetCS2 vcblock) aggregatedKey)"
proof (cases "length dsComm = length (GetB2 vcblock)")
  case False
  then show ?thesis by (simp add: VerifyVCBlockCoSignature_def)
next
  case True
  then show ?thesis
    by (auto simp: VerifyVCBlockCoSignature_def Let_def signer_loop_eq write_at_end
        write_at_empty signed_message_def simp del: length_append split: option.splits)
qed

lemma NumForConsensus_ceiling: "int (NumForConsensus n) = \<lceil>2 * real n / 3\<rceil> + 1"
proof -
  have "2 * real n / 3 = real_of_int (2 * int n) / real_of_int 3" by simp
  then have "\<lceil>2 * real n / 3\<rceil> = - (- (2 * int n) div 3)"
    by (simp only: ceiling_divide_eq_div)
  also have "\<dots> = (2 * int n + 2) div 3" by presburger
  finally have "\<lceil>2 * real n / 3\<rceil> = int ((2 * n + 2) div 3)"
    by (simp add: zdiv_int)
  then show ?thesis by (simp add: NumForConsensus_def)
qed

lemma example_cosig_facts:
  "selected_keys example_committee (GetB2 example_block) =
     [PubKey [1], PubKey [2], PubKey [3], PubKey [4], PubKey [5]]"
  "signed_message example_env example_block = Some [1, 7, 1, 1, 1, 1, 1, 0]"
  "popcount (GetB2 example_block) = 5"
  "length (GetB2 example_block) = 6"
  "length example_committee = 6"
  "NumForConsensus 6 = 5"
  by (simp_all add: selected_keys_def example_committee_def example_block_def
      example_header_def signed_message_def example_env_def sig_bytes_def popcount_def
      NumForConsensus_def)

lemma example_cosig_accepts:
  "VerifyVCBlockCoSignature example_env example_committee example_block"
  unfolding VerifyVCBlockCoSignature_iff example_cosig_facts
  by (simp add: example_env_def key_bytes_def sig_bytes_def example_block_def)

text \<open>
  C2. When the second bitmap has the committee's size, co-signature verification
  succeeds only if the number of set bits of the bitmap is exactly
  \<open>NumForConsensus\<close> of its length, the ceiling of two thirds of the length plus one.
  A bitmap with exactly the ceiling of two thirds of the length set (one fewer) is
  rejected, and so is a bitmap with more set bits than the threshold.
\<close>

theorem cosig_requires_exact_signer_count:
  assumes "length (GetB2 vcblock) = length dsComm"
  shows "(VerifyVCBlockCoSignature env dsComm vcblock \<longrightarrow>
            popcount (GetB2 vcblock) = NumForConsensus (length (GetB2 vcblock)))
       \<and> int (NumForConsensus (length (GetB2 vcblock)))
            = \<lceil>2 * real (length (GetB2 vcblock)) / 3\<rceil> + 1
       \<and> (int (popcount (GetB2 vcblock)) = \<lceil>2 * real (length (GetB2 vcblock)) / 3\<rceil> \<longrightarrow>
            \<not> VerifyVCBlockCoSignature env dsComm vcblock)
       \<and> (popcount (GetB2 vcblock) > NumForConsensus (length (GetB2 vcblock)) \<longrightarrow>
            \<not> VerifyVCBlockCoSignature env dsComm vcblock)"
proof -
  have c: "int (NumForConsensus (length (GetB2 vcblock)))
             = \<lceil>2 * real (length (GetB2 vcblock)) / 3\<rceil> + 1"
    by (rule NumForConsensus_ceiling)
  have a: "popcount (GetB2 vcblock) = NumForConsensus (length (GetB2 vcblock))"
    if "VerifyVCBlockCoSignature env dsComm vcblock"
    using that by (simp add: VerifyVCBlockCoSignature_iff)
  from a c show ?thesis by auto
qed

theorem cosig_requires_exact_signer_count_witness:
  "length (GetB2 example_block) = length example_committee
   \<and> VerifyVCBlockCoSignature example_env example_committee example_block
   \<and> popcount (GetB2 example_block) = NumForConsensus 6
   \<and> NumForConsensus 6 = 5
   \<and> popcount (GetB2 (example_block\<lparr>GetB2 := [True, True, True, True, False, False]\<rparr>)) = 4
   \<and> \<not> VerifyVCBlockCoSignature example_env example_committee
         (example_block\<lparr>GetB2 := [True, True, True, True, False, False]\<rparr>)
   \<and> popcount (GetB2 (example_block\<lparr>GetB2 := [True, True, True, True, True, True]\<rparr>)) = 6
   \<and> \<not> VerifyVCBlockCoSignature example_env example_committee
         (example_block\<lparr>GetB2 := [True, True, True, True, True, True]\<rparr>)"
proof -
  let ?four = "example_block\<lparr>GetB2 := [True, True, True, True, False, False]\<rparr>"
  let ?six = "example_block\<lparr>GetB2 := [True, True, True, True, True, True]\<rparr>"
  have len: "length (GetB2 example_block) = length example_committee"
    by (simp add: example_cosig_facts)
  have len4: "length (GetB2 ?four) = length example_committee"
    by (simp add: example_cosig_facts)
  have len6: "length (GetB2 ?six) = length example_committee"
    by (simp add: example_cosig_facts)
  have "popcount (GetB2 example_block) = NumForConsensus (length (GetB2 example_block))"
    by (rule cosig_requires_exact_signer_count
          [OF len, of example_env, THEN conjunct1, THEN mp, OF example_cosig_accepts])
  then have p: "popcount (GetB2 example_block) = NumForConsensus 6"
    by (simp only: example_cosig_facts(4))
  have p4: "popcount (GetB2 ?four) = 4" by (simp add: popcount_def)
  have c4: "int (popcount (GetB2 ?four)) = \<lceil>2 * real (length (GetB2 ?four)) / 3\<rceil>"
    by (simp add: popcount_def)
  have n4: "\<not> VerifyVCBlockCoSignature example_env example_committee ?four"
    by (rule cosig_requires_exact_signer_count
          [OF len4, of example_env, THEN conjunct2, THEN conjunct2, THEN conjunct1,
           THEN mp, OF c4])
  have p6: "popcount (GetB2 ?six) = 6" by (simp add: popcount_def)
  have g6: "popcount (GetB2 ?six) > NumForConsensus (length (GetB2 ?six))"
    by (simp add: popcount_def NumForConsensus_def)
  have n6: "\<not> VerifyVCBlockCoSignature example_env example_committee ?six"
    by (rule cosig_requires_exact_signer_count
          [OF len6, of example_env, THEN conjunct2, THEN conjunct2, THEN conjunct2,
           THEN mp, OF g6])
  show ?thesis
    by (intro conjI)
      (fact len example_cosig_accepts p example_cosig_facts(6) p4 n4 p6 n6)+
qed

text \<open>
  C3. When the second bitmap has the committee's size and the number of its set bits
  is the threshold, co-signature verification succeeds if and only if the keys that
  the bitmap selects, in committee order, aggregate to a key under which the
  multi-signature check of \<open>cs2\<close> succeeds over the serialized header, followed by the
  serialized \<open>cs1\<close>, followed by the encoded first bitmap.
\<close>

theorem cosig_iff_multisig_over_selected_keys:
  assumes "length (GetB2 vcblock) = length dsComm"
    and "popcount (GetB2 vcblock) = NumForConsensus (length (GetB2 vcblock))"
  shows "VerifyVCBlockCoSignature env dsComm vcblock \<longleftrightarrow>
           (\<exists>aggregatedKey hdr message.
              AggregatePubKeys env (selected_keys dsComm (GetB2 vcblock)) = Some aggregatedKey \<and>
              SerializeHeader env (GetHeader vcblock) = Some hdr \<and>
              message = hdr @ SerializeSignature env (GetCS1 vcblock)
                          @ EncodeBitVector env (GetB1 vcblock) \<and>
              MultiSigVerify env message 0 (length message) (GetCS2 vcblock) aggregatedKey)"
  using assms
  by (auto simp: VerifyVCBlockCoSignature_iff signed_message_def simp del: length_append
      split: option.splits)

theorem cosig_iff_multisig_over_selected_keys_witness:
  "length (GetB2 example_block) = length example_committee
   \<and> popcount (GetB2 example_block) = NumForConsensus (length (GetB2 example_block))
   \<and> selected_keys example_committee (GetB2 example_block)
       = [PubKey [1], PubKey [2], PubKey [3], PubKey [4], PubKey [5]]
   \<and> AggregatePubKeys example_env (selected_keys example_committee (GetB2 example_block))
       = Some (PubKey [1, 2, 3, 4, 5])
   \<and> SerializeHeader example_env (GetHeader example_block) = Some [1]
   \<and> [1] @ SerializeSignature example_env (GetCS1 example_block)
         @ EncodeBitVector example_env (GetB1 example_block)
       = [1, 7, 1, 1, 1, 1, 1, 0]
   \<and> MultiSigVerify example_env [1, 7, 1, 1, 1, 1, 1, 0] 0
       (length [1, 7, 1, 1, 1, 1, 1, 0 :: 8 word]) (GetCS2 example_block)
       (PubKey [1, 2, 3, 4, 5])
   \<and> VerifyVCBlockCoSignature example_env example_committee example_block"
proof -
  have len: "length (GetB2 example_block) = length example_committee"
    by (simp add: example_cosig_facts)
  have p: "popcount (GetB2 example_block) = NumForConsensus (length (GetB2 example_block))"
    by (simp add: example_cosig_facts)
  have agg: "AggregatePubKeys example_env
               (selected_keys example_committee (GetB2 example_block))
             = Some (PubKey [1, 2, 3, 4, 5])"
    by (simp add: example_cosig_facts(1)) (simp add: example_env_def key_bytes_def)
  have hdr: "SerializeHeader example_env (GetHeader example_block) = Some [1]"
    by (simp add: example_env_def example_block_def example_header_def)
  have msg: "[1] @ SerializeSignature example_env (GetCS1 example_block)
               @ EncodeBitVector example_env (GetB1 example_block)
             = [1, 7, 1, 1, 1, 1, 1, 0]"
    by (simp add: example_env_def example_block_def sig_bytes_def)
  have ms: "MultiSigVerify example_env [1, 7, 1, 1, 1, 1, 1, 0] 0
              (length [1, 7, 1, 1, 1, 1, 1, 0 :: 8 word]) (GetCS2 example_block)
              (PubKey [1, 2, 3, 4, 5])"
    by (simp add: example_env_def example_block_def key_bytes_def sig_bytes_def)
  have "\<exists>aggregatedKey hdr message.
          AggregatePubKeys example_env
            (selected_keys example_committee (GetB2 example_block)) = Some aggregatedKey \<and>
          SerializeHeader example_env (GetHeader example_block) = Some hdr \<and>
          message = hdr @ SerializeSignature example_env (GetCS1 example_block)
                      @ EncodeBitVector example_env (GetB1 example_block) \<and>
          MultiSigVerify example_env message 0 (length message) (GetCS2 example_block)
            aggregatedKey"
  proof (intro exI conjI)
    show "AggregatePubKeys example_env
            (selected_keys example_committee (GetB2 example_block))
          = Some (PubKey [1, 2, 3, 4, 5])"
      by (rule agg)
    show "SerializeHeader example_env (GetHeader example_block) = Some [1]"
      by (rule hdr)
    show "[1, 7, 1, 1, 1, 1, 1, 0]
          = [1] @ SerializeSignature example_env (GetCS1 example_block)
              @ EncodeBitVector example_env (GetB1 example_block)"
      by (rule msg [symmetric])
    show "MultiSigVerify example_env [1, 7, 1, 1, 1, 1, 1, 0] 0
            (length [1, 7, 1, 1, 1, 1, 1, 0 :: 8 word]) (GetCS2 example_block)
            (PubKey [1, 2, 3, 4, 5])"
      by (rule ms)
  qed
  then have v: "VerifyVCBlockCoSignature example_env example_committee example_block"
    by (rule cosig_iff_multisig_over_selected_keys [OF len p, of example_env, THEN iffD2])
  show ?thesis
    by (intro conjI) (fact len p example_cosig_facts(1) agg hdr msg ms v)+
qed

section \<open>The pipeline: rejection and acceptance\<close>

lemma ProcessVCBlockCore_rejected:
  "\<not> core_gates_pass cfg env s vcblock \<Longrightarrow>
   ProcessVCBlockCore cfg env s vcblock = (False, s)"
  by (auto simp: ProcessVCBlockCore_def core_gates_pass_def Let_def split: option.splits)

lemma AddBlockLink_next:
  "AddBlockLink env chain (GetLatestIndex env chain + 1) dsindex blocktype blockhash =
     chain @ [\<lparr>link_index = GetLatestIndex env chain + 1, link_ds_epoch = dsindex,
                link_type = blocktype, link_hash = blockhash\<rparr>]"
  by (simp add: AddBlockLink_def)

lemma ProcessVCBlockCore_admitted:
  assumes "core_gates_pass cfg env s vcblock"
  shows "ProcessVCBlockCore cfg env s vcblock =
           (let put = PutVCBlock env (m_blockStorage s) (GetBlockHash vcblock)
                        (SerializeVCBlock env vcblock);
                s' = s\<lparr>m_blocklinkchain := m_blocklinkchain s @ [vc_block_link env s vcblock],
                       m_blockStorage := snd put\<rparr>
            in if fst put
               then (True, s'\<lparr>m_DSCommittee :=
                              UpdateDSCommiteeCompositionAfterVC cfg (m_selfKey s) vcblock
                                (m_DSCommittee s)\<rparr>)
               else (False, s'))"
proof -
  from assms [unfolded core_gates_pass_def] have g:
    "GetViewChangeEpochNo (GetHeader vcblock) = m_currentEpochNum s"
    "CheckWhetherBlockIsLatest env (GetViewChangeDSEpochNo (GetHeader vcblock))
       (GetViewChangeEpochNo (GetHeader vcblock))"
    "GetMyHash env (GetHeader vcblock) = GetBlockHash vcblock"
    "GetVCBlock (m_blockStorage s) (GetMyHash env (GetHeader vcblock)) = None"
    "VerifyTimestamp env (GetTimestamp vcblock)
       (CONSENSUS_OBJECT_TIMEOUT cfg + VIEWCHANGE_TIME cfg
          + VIEWCHANGE_PRECHECK_TIME cfg + VIEWCHANGE_EXTRA_TIME cfg)"
    "GetDSCommitteeHash env (m_DSCommittee s) = Some (GetCommitteeHash (GetHeader vcblock))"
    "VerifyVCBlockCoSignature env (m_DSCommittee s) vcblock"
    by blast+
  have g2: "CheckWhetherBlockIsLatest env (GetViewChangeDSEpochNo (GetHeader vcblock))
              (m_currentEpochNum s)"
    using g(1) g(2) by simp
  have g4: "GetVCBlock (m_blockStorage s) (GetBlockHash vcblock) = None"
    using g(3) g(4) by simp
  show ?thesis
    unfolding ProcessVCBlockCore_def
    by (simp add: g(1) g2 g(3) g4 g(5) g(6) g(7) Let_def AddBlockLink_next write_at_empty
        vc_block_link_def split_beta)
qed

lemma ProcessVCBlock_rejected:
  assumes "GetNodeVCBlock env message cur_offset = None \<or>
           (\<exists>vcblock. GetNodeVCBlock env message cur_offset = Some vcblock \<and>
              \<not> validation_gates_pass cfg env s vcblock)"
  shows "ProcessVCBlock cfg env s message cur_offset = (False, s, [])"
proof (cases "GetNodeVCBlock env message cur_offset")
  case None
  then show ?thesis by (simp add: ProcessVCBlock_def)
next
  case (Some vcblock)
  with assms have n: "\<not> validation_gates_pass cfg env s vcblock" by simp
  show ?thesis
  proof (cases "core_gates_pass cfg env s vcblock")
    case True
    with n Some show ?thesis
      by (auto simp: ProcessVCBlock_def validation_gates_pass_def)
  next
    case False
    then show ?thesis
      using Some by (simp add: ProcessVCBlock_def ProcessVCBlockCore_rejected)
  qed
qed

lemma ProcessVCBlock_accepts_only_admitted:
  assumes "fst (ProcessVCBlock cfg env s message cur_offset)"
  shows "\<exists>vcblock. GetNodeVCBlock env message cur_offset = Some vcblock \<and>
           validation_gates_pass cfg env s vcblock"
proof (rule ccontr)
  assume "\<not> ?thesis"
  then have "GetNodeVCBlock env message cur_offset = None \<or>
             (\<exists>vcblock. GetNodeVCBlock env message cur_offset = Some vcblock \<and>
                \<not> validation_gates_pass cfg env s vcblock)"
    by (cases "GetNodeVCBlock env message cur_offset") auto
  then have "ProcessVCBlock cfg env s message cur_offset = (False, s, [])"
    by (rule ProcessVCBlock_rejected)
  with assms show False by simp
qed

text \<open>Facts about the concrete node.\<close>

lemma example_decode:
  "GetNodeVCBlock example_env example_frame 2 = Some example_block"
  "GetNodeVCBlock example_env_short_b1 example_frame 2 = Some example_block_short_b1"
  by (simp_all add: example_env_def example_env_short_b1_def example_frame_def)

lemma example_core_gates:
  "core_gates_pass example_cfg example_env example_node example_block"
proof -
  have c: "m_DSCommittee example_node = example_committee"
    by (simp add: example_node_def)
  show ?thesis
    unfolding core_gates_pass_def c
    by (intro conjI example_cosig_accepts)
      (simp_all add: example_env_def example_cfg_def example_node_def example_block_def
         example_header_def example_committee_def GetVCBlock_def)
qed

lemma example_validation_gates:
  "validation_gates_pass example_cfg example_env example_node example_block"
  unfolding validation_gates_pass_def
  by (intro conjI example_core_gates)
    (simp_all add: example_env_def example_cfg_def example_block_def example_header_def)

lemma ProcessVCBlock_admitted:
  assumes "GetNodeVCBlock env message cur_offset = Some vcblock"
    and "validation_gates_pass cfg env s vcblock"
  shows "ProcessVCBlock cfg env s message cur_offset =
           (let r = ProcessVCBlockCore cfg env s vcblock in
            if \<not> fst r then (False, snd r, [])
            else if \<not> LOOKUP_NODE_MODE cfg \<and> BROADCAST_TREEBASED_CLUSTER_MODE cfg then
              (case SetNodeVCBlock env
                      [MessageType_NODE cfg, NodeInstructionType_VCBLOCK cfg]
                      (MessageOffset_BODY cfg) vcblock of
                 None \<Rightarrow> (True, snd r, [])
               | Some message2 \<Rightarrow>
                   (True, snd r, [SendVCBlockToOtherShardNodes cfg message2]))
            else (True, snd r, []))"
proof -
  from assms(2) have v: "GetVersion (GetHeader vcblock) = VCBLOCK_VERSION cfg"
    and d: "\<not> IsDSBlockVCState env (GetViewChangeState (GetHeader vcblock))"
    by (simp_all add: validation_gates_pass_def)
  obtain ok s' where r: "ProcessVCBlockCore cfg env s vcblock = (ok, s')"
    by (cases "ProcessVCBlockCore cfg env s vcblock")
  show ?thesis
    by (cases ok)
      (simp_all add: ProcessVCBlock_def assms(1) v d r Let_def split: option.splits)
qed

lemma example_core_result:
  "ProcessVCBlockCore example_cfg example_env example_node example_block
     = (True, example_node_after)"
proof -
  have "UpdateDSCommiteeCompositionAfterVC example_cfg (PubKey [1]) example_block
          example_committee
        = [(PubKey [1], Peer 1 1), (PubKey [3], Peer 3 3), (PubKey [4], Peer 4 4),
           (PubKey [5], Peer 5 5), (PubKey [6], Peer 6 6), (PubKey [2], Peer 2 2)]"
    by (simp add: UpdateDSCommiteeCompositionAfterVC_def example_cfg_def example_block_def
        example_header_def example_committee_def std_find_def eject_def erase_def Peer0_def)
  then show ?thesis
    unfolding ProcessVCBlockCore_admitted [OF example_core_gates]
    by (simp add: example_env_def example_node_def example_node_after_def vc_block_link_def
        example_block_def example_header_def)
qed

text \<open>The gates do not read the decoder, the encoder or the store's write.\<close>

lemma VerifyVCBlockCoSignature_updates:
  "VerifyVCBlockCoSignature (env\<lparr>PutVCBlock := p\<rparr>) c b = VerifyVCBlockCoSignature env c b"
  "VerifyVCBlockCoSignature (env\<lparr>SetNodeVCBlock := e\<rparr>) c b = VerifyVCBlockCoSignature env c b"
  "VerifyVCBlockCoSignature (env\<lparr>GetNodeVCBlock := d\<rparr>) c b = VerifyVCBlockCoSignature env c b"
  by (simp_all add: VerifyVCBlockCoSignature_iff signed_message_def split: option.splits)

lemma core_gates_pass_updates:
  "core_gates_pass cfg (env\<lparr>PutVCBlock := p\<rparr>) s b = core_gates_pass cfg env s b"
  "core_gates_pass cfg (env\<lparr>SetNodeVCBlock := e\<rparr>) s b = core_gates_pass cfg env s b"
  "core_gates_pass cfg (env\<lparr>GetNodeVCBlock := d\<rparr>) s b = core_gates_pass cfg env s b"
  by (simp_all add: core_gates_pass_def VerifyVCBlockCoSignature_updates)

lemma validation_gates_pass_updates:
  "validation_gates_pass cfg (env\<lparr>PutVCBlock := p\<rparr>) s b = validation_gates_pass cfg env s b"
  "validation_gates_pass cfg (env\<lparr>SetNodeVCBlock := e\<rparr>) s b = validation_gates_pass cfg env s b"
  "validation_gates_pass cfg (env\<lparr>GetNodeVCBlock := d\<rparr>) s b = validation_gates_pass cfg env s b"
  by (simp_all add: validation_gates_pass_def core_gates_pass_updates)

text \<open>
  C1. If the decoder fails, or if the decoded block fails the version, state-tag,
  epoch, freshness, self-hash, duplicate, timestamp, committee-hash or co-signature
  check, then \<^verbatim>\<open>ProcessVCBlock\<close> returns false and leaves the mediator as it was: no
  block link is appended, the store is not written and the DS committee is unchanged.
  Nothing is forwarded either.
\<close>

theorem failed_gate_rejects_without_effect:
  assumes "GetNodeVCBlock env message cur_offset = None \<or>
           (\<exists>vcblock. GetNodeVCBlock env message cur_offset = Some vcblock \<and>
              (GetVersion (GetHeader vcblock) \<noteq> VCBLOCK_VERSION cfg
               \<or> IsDSBlockVCState env (GetViewChangeState (GetHeader vcblock))
               \<or> GetViewChangeEpochNo (GetHeader vcblock) \<noteq> m_currentEpochNum s
               \<or> \<not> CheckWhetherBlockIsLatest env
                      (GetViewChangeDSEpochNo (GetHeader vcblock))
                      (GetViewChangeEpochNo (GetHeader vcblock))
               \<or> GetMyHash env (GetHeader vcblock) \<noteq> GetBlockHash vcblock
               \<or> GetVCBlock (m_blockStorage s) (GetMyHash env (GetHeader vcblock)) \<noteq> None
               \<or> \<not> VerifyTimestamp env (GetTimestamp vcblock)
                      (CONSENSUS_OBJECT_TIMEOUT cfg + VIEWCHANGE_TIME cfg
                         + VIEWCHANGE_PRECHECK_TIME cfg + VIEWCHANGE_EXTRA_TIME cfg)
               \<or> GetDSCommitteeHash env (m_DSCommittee s)
                     \<noteq> Some (GetCommitteeHash (GetHeader vcblock))
               \<or> \<not> VerifyVCBlockCoSignature env (m_DSCommittee s) vcblock))"
  shows "fst (ProcessVCBlock cfg env s message cur_offset) = False
       \<and> m_blocklinkchain (fst (snd (ProcessVCBlock cfg env s message cur_offset)))
           = m_blocklinkchain s
       \<and> m_blockStorage (fst (snd (ProcessVCBlock cfg env s message cur_offset)))
           = m_blockStorage s
       \<and> m_DSCommittee (fst (snd (ProcessVCBlock cfg env s message cur_offset)))
           = m_DSCommittee s
       \<and> fst (snd (ProcessVCBlock cfg env s message cur_offset)) = s
       \<and> snd (snd (ProcessVCBlock cfg env s message cur_offset)) = []"
proof -
  have "ProcessVCBlock cfg env s message cur_offset = (False, s, [])"
  proof (cases "GetNodeVCBlock env message cur_offset")
    case None
    then show ?thesis by (simp add: ProcessVCBlock_rejected)
  next
    case (Some vcblock)
    with assms have failed:
      "GetVersion (GetHeader vcblock) \<noteq> VCBLOCK_VERSION cfg
       \<or> IsDSBlockVCState env (GetViewChangeState (GetHeader vcblock))
       \<or> GetViewChangeEpochNo (GetHeader vcblock) \<noteq> m_currentEpochNum s
       \<or> \<not> CheckWhetherBlockIsLatest env
              (GetViewChangeDSEpochNo (GetHeader vcblock))
              (GetViewChangeEpochNo (GetHeader vcblock))
       \<or> GetMyHash env (GetHeader vcblock) \<noteq> GetBlockHash vcblock
       \<or> GetVCBlock (m_blockStorage s) (GetMyHash env (GetHeader vcblock)) \<noteq> None
       \<or> \<not> VerifyTimestamp env (GetTimestamp vcblock)
              (CONSENSUS_OBJECT_TIMEOUT cfg + VIEWCHANGE_TIME cfg
                 + VIEWCHANGE_PRECHECK_TIME cfg + VIEWCHANGE_EXTRA_TIME cfg)
       \<or> GetDSCommitteeHash env (m_DSCommittee s)
             \<noteq> Some (GetCommitteeHash (GetHeader vcblock))
       \<or> \<not> VerifyVCBlockCoSignature env (m_DSCommittee s) vcblock"
      by simp
    have "\<not> validation_gates_pass cfg env s vcblock"
      unfolding validation_gates_pass_def core_gates_pass_def
      using failed by blast
    with Some show ?thesis by (simp add: ProcessVCBlock_rejected)
  qed
  then show ?thesis by simp
qed

lemma example_four_signers_rejected:
  "\<not> VerifyVCBlockCoSignature example_env_four_signers (m_DSCommittee example_node)
       example_block_four_signers"
proof
  assume "VerifyVCBlockCoSignature example_env_four_signers (m_DSCommittee example_node)
            example_block_four_signers"
  then have "popcount (GetB2 example_block_four_signers)
               = NumForConsensus (length (GetB2 example_block_four_signers))"
    by (simp only: VerifyVCBlockCoSignature_iff)
  then show False
    by (simp add: example_block_four_signers_def popcount_def NumForConsensus_def)
qed

theorem failed_gate_rejects_without_effect_witness:
  "GetNodeVCBlock example_env_four_signers example_frame 2 = Some example_block_four_signers
   \<and> \<not> VerifyVCBlockCoSignature example_env_four_signers (m_DSCommittee example_node)
         example_block_four_signers
   \<and> fst (ProcessVCBlock example_cfg example_env_four_signers example_node example_frame 2)
       = False
   \<and> m_blocklinkchain
        (fst (snd (ProcessVCBlock example_cfg example_env_four_signers example_node
                     example_frame 2))) = []
   \<and> m_blockStorage
        (fst (snd (ProcessVCBlock example_cfg example_env_four_signers example_node
                     example_frame 2))) = Map.empty
   \<and> m_DSCommittee
        (fst (snd (ProcessVCBlock example_cfg example_env_four_signers example_node
                     example_frame 2))) = example_committee"
proof -
  have d: "GetNodeVCBlock example_env_four_signers example_frame 2
             = Some example_block_four_signers"
    by (simp add: example_env_four_signers_def example_frame_def)
  have "GetNodeVCBlock example_env_four_signers example_frame 2 = None \<or>
        (\<exists>vcblock. GetNodeVCBlock example_env_four_signers example_frame 2 = Some vcblock \<and>
           (GetVersion (GetHeader vcblock) \<noteq> VCBLOCK_VERSION example_cfg
            \<or> IsDSBlockVCState example_env_four_signers
                 (GetViewChangeState (GetHeader vcblock))
            \<or> GetViewChangeEpochNo (GetHeader vcblock) \<noteq> m_currentEpochNum example_node
            \<or> \<not> CheckWhetherBlockIsLatest example_env_four_signers
                   (GetViewChangeDSEpochNo (GetHeader vcblock))
                   (GetViewChangeEpochNo (GetHeader vcblock))
            \<or> GetMyHash example_env_four_signers (GetHeader vcblock) \<noteq> GetBlockHash vcblock
            \<or> GetVCBlock (m_blockStorage example_node)
                 (GetMyHash example_env_four_signers (GetHeader vcblock)) \<noteq> None
            \<or> \<not> VerifyTimestamp example_env_four_signers (GetTimestamp vcblock)
                   (CONSENSUS_OBJECT_TIMEOUT example_cfg + VIEWCHANGE_TIME example_cfg
                      + VIEWCHANGE_PRECHECK_TIME example_cfg
                      + VIEWCHANGE_EXTRA_TIME example_cfg)
            \<or> GetDSCommitteeHash example_env_four_signers (m_DSCommittee example_node)
                  \<noteq> Some (GetCommitteeHash (GetHeader vcblock))
            \<or> \<not> VerifyVCBlockCoSignature example_env_four_signers
                   (m_DSCommittee example_node) vcblock))"
    using example_four_signers_rejected by (simp add: d)
  note t = failed_gate_rejects_without_effect [OF this]
  have f: "fst (ProcessVCBlock example_cfg example_env_four_signers example_node
                  example_frame 2) = False"
    by (rule t [THEN conjunct1])
  have r: "fst (snd (ProcessVCBlock example_cfg example_env_four_signers example_node
                       example_frame 2)) = example_node"
    by (rule t [THEN conjunct2, THEN conjunct2, THEN conjunct2, THEN conjunct2,
                THEN conjunct1])
  show ?thesis
    unfolding r
    by (intro conjI d example_four_signers_rejected f)
      (simp_all add: example_node_def)
qed

text \<open>
  C5. A block that \<^verbatim>\<open>ProcessVCBlock\<close> accepts has a second bitmap of the size of the
  DS committee as it stood when the block came in. (The first bitmap is only encoded
  into the signed message; its length is compared with nothing.)
\<close>

theorem admitted_block_b2_has_committee_size:
  assumes "fst (ProcessVCBlock cfg env s message cur_offset)"
  shows "\<exists>vcblock. GetNodeVCBlock env message cur_offset = Some vcblock \<and>
           length (GetB2 vcblock) = length (m_DSCommittee s)"
proof -
  from ProcessVCBlock_accepts_only_admitted [OF assms]
  obtain vcblock where d: "GetNodeVCBlock env message cur_offset = Some vcblock"
    and g: "validation_gates_pass cfg env s vcblock"
    by blast
  from g have "VerifyVCBlockCoSignature env (m_DSCommittee s) vcblock"
    by (simp add: validation_gates_pass_def core_gates_pass_def)
  then have "length (GetB2 vcblock) = length (m_DSCommittee s)"
    by (simp add: VerifyVCBlockCoSignature_iff)
  with d show ?thesis by blast
qed

lemma example_accepted:
  "ProcessVCBlock example_cfg example_env example_node example_frame 2
     = (True, example_node_after, [([2, 7, 99], 10, 2)])"
  unfolding ProcessVCBlock_admitted [OF example_decode(1) example_validation_gates]
    example_core_result
  by (simp add: example_cfg_def example_env_def SendVCBlockToOtherShardNodes_def
      write_at_def)

theorem admitted_block_b2_has_committee_size_witness:
  "fst (ProcessVCBlock example_cfg example_env example_node example_frame 2)
   \<and> GetNodeVCBlock example_env example_frame 2 = Some example_block
   \<and> length (GetB2 example_block) = length (m_DSCommittee example_node)"
proof -
  have a: "fst (ProcessVCBlock example_cfg example_env example_node example_frame 2)"
    by (simp add: example_accepted)
  from admitted_block_b2_has_committee_size [OF a]
  obtain vcblock where "GetNodeVCBlock example_env example_frame 2 = Some vcblock"
    and l: "length (GetB2 vcblock) = length (m_DSCommittee example_node)"
    by (elim exE conjE)
  then have "vcblock = example_block" by (simp add: example_decode)
  with l have "length (GetB2 example_block) = length (m_DSCommittee example_node)"
    by simp
  with a example_decode(1) show ?thesis by (intro conjI)
qed

text \<open>
  The instance with the empty first bitmap is accepted all the same: the committee has
  six members and the first bitmap none.
\<close>

lemma example_short_b1_gates:
  "validation_gates_pass example_cfg example_env_short_b1 example_node
     example_block_short_b1"
proof -
  have "VerifyVCBlockCoSignature example_env example_committee example_block_short_b1"
    unfolding VerifyVCBlockCoSignature_iff
    by (simp add: example_block_short_b1_def example_cosig_facts signed_message_def)
      (simp add: example_env_def key_bytes_def sig_bytes_def example_block_def
         example_header_def)
  then have "VerifyVCBlockCoSignature example_env_short_b1 (m_DSCommittee example_node)
               example_block_short_b1"
    by (simp add: example_env_short_b1_def VerifyVCBlockCoSignature_updates
        example_node_def)
  then show ?thesis
    unfolding validation_gates_pass_def core_gates_pass_def
    by (intro conjI)
      (simp_all add: example_env_short_b1_def example_env_def example_cfg_def
         example_node_def example_block_short_b1_def example_block_def
         example_header_def example_committee_def GetVCBlock_def)
qed

theorem admitted_block_b1_length_counterexample:
  "fst (ProcessVCBlock example_cfg example_env_short_b1 example_node example_frame 2)
   \<and> GetNodeVCBlock example_env_short_b1 example_frame 2 = Some example_block_short_b1
   \<and> length (GetB1 example_block_short_b1) \<noteq> length (m_DSCommittee example_node)
   \<and> length (GetB1 example_block_short_b1) = 0
   \<and> length (m_DSCommittee example_node) = 6"
proof -
  have core: "core_gates_pass example_cfg example_env_short_b1 example_node
                example_block_short_b1"
    using example_short_b1_gates by (simp add: validation_gates_pass_def)
  have "fst (ProcessVCBlockCore example_cfg example_env_short_b1 example_node
               example_block_short_b1)"
    unfolding ProcessVCBlockCore_admitted [OF core]
    by (simp add: example_env_short_b1_def example_env_def Let_def)
  then have "fst (ProcessVCBlock example_cfg example_env_short_b1 example_node
                    example_frame 2)"
    unfolding ProcessVCBlock_admitted [OF example_decode(2) example_short_b1_gates]
    by (simp add: Let_def split: option.splits)
  then show ?thesis
    by (simp add: example_decode example_block_short_b1_def example_node_def
        example_committee_def)
qed

text \<open>
  C6. When every gate passes and the store's write then fails, \<^verbatim>\<open>ProcessVCBlock\<close>
  returns false, the block link appended before the write is still in the chain, and
  the DS committee is not mutated. Nothing is forwarded.
\<close>

theorem failed_store_keeps_appended_link:
  assumes "GetNodeVCBlock env message cur_offset = Some vcblock"
    and "validation_gates_pass cfg env s vcblock"
    and "\<not> fst (PutVCBlock env (m_blockStorage s) (GetBlockHash vcblock)
                  (SerializeVCBlock env vcblock))"
  shows "fst (ProcessVCBlock cfg env s message cur_offset) = False
       \<and> m_blocklinkchain (fst (snd (ProcessVCBlock cfg env s message cur_offset)))
           = m_blocklinkchain s
               @ [\<lparr>link_index = GetLatestIndex env (m_blocklinkchain s) + 1,
                    link_ds_epoch = GetViewChangeDSEpochNo (GetHeader vcblock),
                    link_type = VC, link_hash = GetBlockHash vcblock\<rparr>]
       \<and> m_DSCommittee (fst (snd (ProcessVCBlock cfg env s message cur_offset)))
           = m_DSCommittee s
       \<and> snd (snd (ProcessVCBlock cfg env s message cur_offset)) = []"
proof -
  from assms(2) have core: "core_gates_pass cfg env s vcblock"
    by (simp add: validation_gates_pass_def)
  have "ProcessVCBlockCore cfg env s vcblock =
          (False,
           s\<lparr>m_blocklinkchain := m_blocklinkchain s @ [vc_block_link env s vcblock],
             m_blockStorage :=
               snd (PutVCBlock env (m_blockStorage s) (GetBlockHash vcblock)
                      (SerializeVCBlock env vcblock))\<rparr>)"
    using assms(3) by (simp add: ProcessVCBlockCore_admitted [OF core] Let_def)
  then show ?thesis
    by (simp add: ProcessVCBlock_admitted [OF assms(1) assms(2)] Let_def vc_block_link_def)
qed

theorem failed_store_keeps_appended_link_witness:
  "GetNodeVCBlock example_env_put_fails example_frame 2 = Some example_block
   \<and> validation_gates_pass example_cfg example_env_put_fails example_node example_block
   \<and> fst (PutVCBlock example_env_put_fails (m_blockStorage example_node)
            (GetBlockHash example_block)
            (SerializeVCBlock example_env_put_fails example_block)) = False
   \<and> fst (ProcessVCBlock example_cfg example_env_put_fails example_node example_frame 2)
       = False
   \<and> m_blocklinkchain
        (fst (snd (ProcessVCBlock example_cfg example_env_put_fails example_node
                     example_frame 2)))
       = [\<lparr>link_index = 1, link_ds_epoch = 4, link_type = VC,
            link_hash = BlockHash [1, 40]\<rparr>]
   \<and> m_DSCommittee
        (fst (snd (ProcessVCBlock example_cfg example_env_put_fails example_node
                     example_frame 2)))
       = example_committee"
proof -
  have d: "GetNodeVCBlock example_env_put_fails example_frame 2 = Some example_block"
    by (simp add: example_env_put_fails_def example_decode)
  have g: "validation_gates_pass example_cfg example_env_put_fails example_node
             example_block"
    by (simp add: example_env_put_fails_def validation_gates_pass_updates
        example_validation_gates)
  have p: "\<not> fst (PutVCBlock example_env_put_fails (m_blockStorage example_node)
                    (GetBlockHash example_block)
                    (SerializeVCBlock example_env_put_fails example_block))"
    by (simp add: example_env_put_fails_def)
  note t = failed_store_keeps_appended_link [OF d g p]
  have l: "m_blocklinkchain example_node
             @ [\<lparr>link_index = GetLatestIndex example_env_put_fails
                                 (m_blocklinkchain example_node) + 1,
                  link_ds_epoch = GetViewChangeDSEpochNo (GetHeader example_block),
                  link_type = VC, link_hash = GetBlockHash example_block\<rparr>]
           = [\<lparr>link_index = 1, link_ds_epoch = 4, link_type = VC,
                link_hash = BlockHash [1, 40]\<rparr>]"
    by (simp add: example_env_put_fails_def example_env_def example_node_def
        example_block_def example_header_def)
  have c: "m_DSCommittee example_node = example_committee"
    by (simp add: example_node_def)
  show ?thesis
    using d g p t [THEN conjunct1] t [THEN conjunct2, THEN conjunct1, unfolded l]
      t [THEN conjunct2, THEN conjunct2, THEN conjunct1, unfolded c]
    by (intro conjI) simp_all
qed

text \<open>
  C10. When the block decodes, its version and state tag pass, and
  \<^verbatim>\<open>ProcessVCBlockCore\<close> succeeds, \<^verbatim>\<open>ProcessVCBlock\<close> returns true with the mediator
  as the core left it, whatever the encoder does; and when the node forwards
  (not a lookup node, tree-based broadcast on) and the encoder fails, nothing is
  handed to the broadcast subsystem.
\<close>

theorem encode_failure_keeps_success:
  assumes "GetNodeVCBlock env message cur_offset = Some vcblock"
    and "GetVersion (GetHeader vcblock) = VCBLOCK_VERSION cfg"
    and "\<not> IsDSBlockVCState env (GetViewChangeState (GetHeader vcblock))"
    and "ProcessVCBlockCore cfg env s vcblock = (True, s')"
  shows "fst (ProcessVCBlock cfg env s message cur_offset) = True
       \<and> fst (snd (ProcessVCBlock cfg env s message cur_offset)) = s'
       \<and> (\<not> LOOKUP_NODE_MODE cfg \<and> BROADCAST_TREEBASED_CLUSTER_MODE cfg \<and>
            SetNodeVCBlock env [MessageType_NODE cfg, NodeInstructionType_VCBLOCK cfg]
              (MessageOffset_BODY cfg) vcblock = None
            \<longrightarrow> ProcessVCBlock cfg env s message cur_offset = (True, s', []))"
  using assms by (simp add: ProcessVCBlock_def split: option.splits)

lemma example_core_result_encode_fails:
  "ProcessVCBlockCore example_cfg example_env_encode_fails example_node example_block
     = (True, example_node_after)"
proof -
  have core: "core_gates_pass example_cfg example_env_encode_fails example_node
                example_block"
    by (simp add: example_env_encode_fails_def core_gates_pass_updates example_core_gates)
  have "ProcessVCBlockCore example_cfg example_env_encode_fails example_node example_block
          = ProcessVCBlockCore example_cfg example_env example_node example_block"
    unfolding ProcessVCBlockCore_admitted [OF core]
      ProcessVCBlockCore_admitted [OF example_core_gates]
    by (simp add: example_env_encode_fails_def vc_block_link_def)
  then show ?thesis by (simp add: example_core_result)
qed

theorem encode_failure_keeps_success_witness:
  "GetNodeVCBlock example_env_encode_fails example_frame 2 = Some example_block
   \<and> GetVersion (GetHeader example_block) = VCBLOCK_VERSION example_cfg
   \<and> \<not> IsDSBlockVCState example_env_encode_fails
         (GetViewChangeState (GetHeader example_block))
   \<and> ProcessVCBlockCore example_cfg example_env_encode_fails example_node example_block
       = (True, example_node_after)
   \<and> \<not> LOOKUP_NODE_MODE example_cfg
   \<and> BROADCAST_TREEBASED_CLUSTER_MODE example_cfg
   \<and> SetNodeVCBlock example_env_encode_fails
        [MessageType_NODE example_cfg, NodeInstructionType_VCBLOCK example_cfg]
        (MessageOffset_BODY example_cfg) example_block = None
   \<and> ProcessVCBlock example_cfg example_env_encode_fails example_node example_frame 2
       = (True, example_node_after, [])"
proof -
  have d: "GetNodeVCBlock example_env_encode_fails example_frame 2 = Some example_block"
    by (simp add: example_env_encode_fails_def example_decode)
  have v: "GetVersion (GetHeader example_block) = VCBLOCK_VERSION example_cfg"
    by (simp add: example_block_def example_header_def example_cfg_def)
  have i: "\<not> IsDSBlockVCState example_env_encode_fails
               (GetViewChangeState (GetHeader example_block))"
    by (simp add: example_env_encode_fails_def example_env_def example_block_def
        example_header_def)
  have m: "\<not> LOOKUP_NODE_MODE example_cfg" "BROADCAST_TREEBASED_CLUSTER_MODE example_cfg"
    by (simp_all add: example_cfg_def)
  have e: "SetNodeVCBlock example_env_encode_fails
             [MessageType_NODE example_cfg, NodeInstructionType_VCBLOCK example_cfg]
             (MessageOffset_BODY example_cfg) example_block = None"
    by (simp add: example_env_encode_fails_def)
  note t = encode_failure_keeps_success [OF d v i example_core_result_encode_fails]
  have "ProcessVCBlock example_cfg example_env_encode_fails example_node example_frame 2
          = (True, example_node_after, [])"
    by (rule t [THEN conjunct2, THEN conjunct2, THEN mp]) (intro conjI m e)
  with d v i m e example_core_result_encode_fails show ?thesis by (intro conjI)
qed

section \<open>Committee mutation: moving the faulty leaders to the tail\<close>

lemma std_find_if_None: "std_find_if P xs = None \<longleftrightarrow> (\<forall>x \<in> set xs. \<not> P x)"
  by (induction xs) auto

lemma std_find_None: "std_find v xs = None \<longleftrightarrow> v \<notin> set xs"
  by (auto simp: std_find_def std_find_if_None)

lemma erase_Cons_Suc: "erase (Suc i) (x # xs) = x # erase i xs"
  by (simp add: erase_def)

lemma erase_0: "erase 0 (x # xs) = xs"
  by (simp add: erase_def)

text \<open>Erasing at the position that \<^verbatim>\<open>std::find\<close> returns removes the first occurrence.\<close>

lemma std_find_erase: "std_find v xs = Some i \<Longrightarrow> erase i xs = remove1 v xs"
proof (induction xs arbitrary: i)
  case Nil
  then show ?case by (simp add: std_find_def)
next
  case (Cons x xs)
  show ?case
  proof (cases "x = v")
    case True
    with Cons.prems show ?thesis by (simp add: std_find_def erase_0)
  next
    case False
    with Cons.prems obtain j where j: "std_find v xs = Some j" "i = Suc j"
      by (auto simp: std_find_def)
    with Cons.IH [of j] False show ?thesis by (simp add: erase_Cons_Suc)
  qed
qed

lemma eject_std_find: "eject (std_find v xs) v xs = remove1 v xs @ [v]"
proof (cases "std_find v xs")
  case None
  then have "v \<notin> set xs" by (simp add: std_find_None)
  then show ?thesis using None by (simp add: eject_def remove1_idem)
next
  case (Some i)
  then show ?thesis by (simp add: eject_def std_find_erase)
qed

text \<open>
  The branch for the node's own key searches for the pair it was given: the pair built
  from the key and the zero peer is the faulty leader itself when the branch is taken.
\<close>

lemma UpdateDSCommitee_loop_step:
  "UpdateDSCommitee_loop selfKey (f # rest) dsComm =
     UpdateDSCommitee_loop selfKey rest (remove1 f dsComm @ [f])"
proof (cases "fst f = selfKey \<and> snd f = Peer0")
  case True
  then have "(fst f, Peer0) = f" by (cases f) simp
  with True show ?thesis by (simp add: eject_std_find)
next
  case False
  then show ?thesis by (auto simp: eject_std_find)
qed

lemma UpdateDSCommitee_loop_snoc:
  "UpdateDSCommitee_loop selfKey (fs @ [f]) dsComm =
     remove1 f (UpdateDSCommitee_loop selfKey fs dsComm) @ [f]"
proof (induction fs arbitrary: dsComm)
  case Nil
  show ?case by (simp add: UpdateDSCommitee_loop_step del: UpdateDSCommitee_loop.simps(2))
next
  case (Cons a fs)
  show ?case
    by (simp add: UpdateDSCommitee_loop_step Cons.IH del: UpdateDSCommitee_loop.simps(2))
qed

lemma remove1_removeAll_count: "count_list xs x \<le> 1 \<Longrightarrow> remove1 x xs = removeAll x xs"
  by (induction xs) (auto simp: count_list_0_iff)

lemma remdups_snoc: "remdups (xs @ [x]) = removeAll x (remdups xs) @ [x]"
  by (induction xs) auto

lemma count_list_remdups: "count_list (remdups xs) x = (if x \<in> set xs then 1 else 0)"
  by (induction xs) (auto simp: count_list_0_iff)

lemma count_list_filter_le: "count_list (filter P xs) x \<le> count_list xs x"
  by (induction xs) auto

lemma count_list_filter_out: "\<not> P x \<Longrightarrow> count_list (filter P xs) x = 0"
  by (simp add: count_list_0_iff)

lemma UpdateDSCommitee_loop_formula:
  "\<forall>f \<in> set fs. count_list dsComm f \<le> 1 \<Longrightarrow>
   UpdateDSCommitee_loop selfKey fs dsComm =
     filter (\<lambda>p. p \<notin> set fs) dsComm @ remdups fs"
proof (induction fs rule: rev_induct)
  case Nil
  show ?case by simp
next
  case (snoc f fs)
  let ?front = "filter (\<lambda>p. p \<notin> set fs) dsComm"
  have IH: "UpdateDSCommitee_loop selfKey fs dsComm = ?front @ remdups fs"
    using snoc by simp
  have cf: "count_list dsComm f \<le> 1" using snoc.prems by simp
  have "count_list (?front @ remdups fs) f \<le> 1"
  proof (cases "f \<in> set fs")
    case True
    then show ?thesis by (simp add: count_list_remdups count_list_filter_out)
  next
    case False
    then show ?thesis
      using cf count_list_filter_le [of "\<lambda>p. p \<notin> set fs" dsComm f]
      by (simp add: count_list_remdups)
  qed
  then have "remove1 f (?front @ remdups fs) = removeAll f ?front @ removeAll f (remdups fs)"
    by (simp add: remove1_removeAll_count)
  moreover have "removeAll f ?front = filter (\<lambda>p. p \<notin> set (fs @ [f])) dsComm"
    by (induction dsComm) auto
  ultimately show ?case
    by (simp add: UpdateDSCommitee_loop_snoc IH remdups_snoc)
qed

lemma UpdateDSCommitee_loop_five:
  assumes "distinct [A, B, C, D, E]"
  shows "UpdateDSCommitee_loop selfKey [B, D] [A, B, C, D, E] = [A, C, E, B, D]"
    and "UpdateDSCommitee_loop selfKey [B] [A, C, E, B, D] = [A, C, E, D, B]"
  using assms
  by (auto simp: UpdateDSCommitee_loop_step simp del: UpdateDSCommitee_loop.simps(2))

text \<open>
  C4. With guard mode off, and provided no pair listed in the block's faulty leaders
  stands more than once in the committee beforehand: afterwards every listed pair
  stands exactly once in the committee; the committee is its members that are not
  listed, in their old order, followed by the listed pairs in header order (a pair
  listed more than once stands at its last listing), so that a list without repeats
  is the tail as it is written. For five distinct members \<open>[A, B, C, D, E]\<close>, the
  faulty list \<open>[B, D]\<close> gives \<open>[A, C, E, B, D]\<close>, and then the faulty list \<open>[B]\<close>
  gives \<open>[A, C, E, D, B]\<close>.
\<close>

theorem faulty_leaders_moved_to_tail:
  assumes "\<not> GUARD_MODE cfg"
  shows "((\<forall>f \<in> set (GetFaultyLeaders (GetHeader vcblock)). count_list dsComm f \<le> 1) \<longrightarrow>
            (\<forall>f \<in> set (GetFaultyLeaders (GetHeader vcblock)).
               count_list (UpdateDSCommiteeCompositionAfterVC cfg selfKey vcblock dsComm) f = 1)
          \<and> UpdateDSCommiteeCompositionAfterVC cfg selfKey vcblock dsComm
              = filter (\<lambda>p. p \<notin> set (GetFaultyLeaders (GetHeader vcblock))) dsComm
                  @ remdups (GetFaultyLeaders (GetHeader vcblock))
          \<and> (distinct (GetFaultyLeaders (GetHeader vcblock)) \<longrightarrow>
                UpdateDSCommiteeCompositionAfterVC cfg selfKey vcblock dsComm
                  = filter (\<lambda>p. p \<notin> set (GetFaultyLeaders (GetHeader vcblock))) dsComm
                      @ GetFaultyLeaders (GetHeader vcblock)))
       \<and> (distinct [A, B, C, D, E] \<and> GetFaultyLeaders (GetHeader vcblock_first) = [B, D] \<longrightarrow>
            UpdateDSCommiteeCompositionAfterVC cfg selfKey vcblock_first [A, B, C, D, E]
              = [A, C, E, B, D])
       \<and> (distinct [A, B, C, D, E] \<and> GetFaultyLeaders (GetHeader vcblock_second) = [B] \<longrightarrow>
            UpdateDSCommiteeCompositionAfterVC cfg selfKey vcblock_second [A, C, E, B, D]
              = [A, C, E, D, B])"
proof (intro conjI impI ballI)
  let ?fs = "GetFaultyLeaders (GetHeader vcblock)"
  let ?r = "UpdateDSCommiteeCompositionAfterVC cfg selfKey vcblock dsComm"
  assume once: "\<forall>f \<in> set ?fs. count_list dsComm f \<le> 1"
  show eq: "?r = filter (\<lambda>p. p \<notin> set ?fs) dsComm @ remdups ?fs"
    using assms once
    by (simp add: UpdateDSCommiteeCompositionAfterVC_def UpdateDSCommitee_loop_formula)
  show "count_list ?r f = 1" if "f \<in> set ?fs" for f
    using that by (simp add: eq count_list_remdups count_list_filter_out)
  show "?r = filter (\<lambda>p. p \<notin> set ?fs) dsComm @ ?fs" if "distinct ?fs"
    using that by (simp add: eq distinct_remdups_id)
next
  assume "distinct [A, B, C, D, E] \<and> GetFaultyLeaders (GetHeader vcblock_first) = [B, D]"
  then show "UpdateDSCommiteeCompositionAfterVC cfg selfKey vcblock_first [A, B, C, D, E]
               = [A, C, E, B, D]"
    using assms
    by (simp only: UpdateDSCommiteeCompositionAfterVC_def if_False
        UpdateDSCommitee_loop_five(1))
next
  assume "distinct [A, B, C, D, E] \<and> GetFaultyLeaders (GetHeader vcblock_second) = [B]"
  then show "UpdateDSCommiteeCompositionAfterVC cfg selfKey vcblock_second [A, C, E, B, D]
               = [A, C, E, D, B]"
    using assms
    by (simp only: UpdateDSCommiteeCompositionAfterVC_def if_False
        UpdateDSCommitee_loop_five(2))
qed

lemma five_nodes_distinct: "distinct [node_A, node_B, node_C, node_D, node_E]"
  by (simp add: node_A_def node_B_def node_C_def node_D_def node_E_def)

theorem faulty_leaders_moved_to_tail_witness:
  "\<not> GUARD_MODE example_cfg
   \<and> GetFaultyLeaders (GetHeader example_block) = [(PubKey [2], Peer 2 2)]
   \<and> count_list example_committee (PubKey [2], Peer 2 2) = 1
   \<and> count_list
        (UpdateDSCommiteeCompositionAfterVC example_cfg (PubKey [1]) example_block
           example_committee)
        (PubKey [2], Peer 2 2) = 1
   \<and> UpdateDSCommiteeCompositionAfterVC example_cfg (PubKey [1]) example_block
        example_committee
       = [(PubKey [1], Peer 1 1), (PubKey [3], Peer 3 3), (PubKey [4], Peer 4 4),
          (PubKey [5], Peer 5 5), (PubKey [6], Peer 6 6), (PubKey [2], Peer 2 2)]
   \<and> distinct [node_A, node_B, node_C, node_D, node_E]
   \<and> UpdateDSCommiteeCompositionAfterVC example_cfg (PubKey [1])
        (block_with_faulty [node_B, node_D]) [node_A, node_B, node_C, node_D, node_E]
       = [node_A, node_C, node_E, node_B, node_D]
   \<and> UpdateDSCommiteeCompositionAfterVC example_cfg (PubKey [1])
        (block_with_faulty [node_B]) [node_A, node_C, node_E, node_B, node_D]
       = [node_A, node_C, node_E, node_D, node_B]"
proof -
  have ng: "\<not> GUARD_MODE example_cfg" by (simp add: example_cfg_def)
  have fl: "GetFaultyLeaders (GetHeader example_block) = [(PubKey [2], Peer 2 2)]"
    by (simp add: example_block_def example_header_def)
  have c: "count_list example_committee (PubKey [2], Peer 2 2) = 1"
    by (simp add: example_committee_def)
  have once: "\<forall>f \<in> set (GetFaultyLeaders (GetHeader example_block)).
                count_list example_committee f \<le> 1"
    by (simp add: fl c)
  note t = faulty_leaders_moved_to_tail
    [OF ng, where vcblock = example_block and dsComm = example_committee
       and selfKey = "PubKey [1]" and A = node_A and B = node_B and C = node_C
       and D = node_D and E = node_E and vcblock_first = "block_with_faulty [node_B, node_D]"
       and vcblock_second = "block_with_faulty [node_B]"]
  note g = t [THEN conjunct1, THEN mp, OF once]
  have m: "(PubKey [2], Peer 2 2) \<in> set (GetFaultyLeaders (GetHeader example_block))"
    by (simp add: fl)
  have c1: "count_list
              (UpdateDSCommiteeCompositionAfterVC example_cfg (PubKey [1]) example_block
                 example_committee)
              (PubKey [2], Peer 2 2) = 1"
    by (rule g [THEN conjunct1, THEN bspec, OF m])
  have r: "UpdateDSCommiteeCompositionAfterVC example_cfg (PubKey [1]) example_block
             example_committee
           = [(PubKey [1], Peer 1 1), (PubKey [3], Peer 3 3), (PubKey [4], Peer 4 4),
              (PubKey [5], Peer 5 5), (PubKey [6], Peer 6 6), (PubKey [2], Peer 2 2)]"
    unfolding g [THEN conjunct2, THEN conjunct1] fl
    by (simp add: example_committee_def)
  have f1: "GetFaultyLeaders (GetHeader (block_with_faulty [node_B, node_D]))
              = [node_B, node_D]"
    and f2: "GetFaultyLeaders (GetHeader (block_with_faulty [node_B])) = [node_B]"
    by (simp_all add: block_with_faulty_def)
  have e1: "UpdateDSCommiteeCompositionAfterVC example_cfg (PubKey [1])
              (block_with_faulty [node_B, node_D])
              [node_A, node_B, node_C, node_D, node_E]
            = [node_A, node_C, node_E, node_B, node_D]"
    by (rule t [THEN conjunct2, THEN conjunct1, THEN mp])
      (intro conjI five_nodes_distinct f1)
  have e2: "UpdateDSCommiteeCompositionAfterVC example_cfg (PubKey [1])
              (block_with_faulty [node_B]) [node_A, node_C, node_E, node_B, node_D]
            = [node_A, node_C, node_E, node_D, node_B]"
    by (rule t [THEN conjunct2, THEN conjunct2, THEN mp])
      (intro conjI five_nodes_distinct f2)
  show ?thesis
    by (intro conjI) (fact ng fl c c1 r five_nodes_distinct e1 e2)+
qed

text \<open>
  A committee that holds a listed pair twice keeps it twice: the search erases the
  first occurrence only.
\<close>

theorem faulty_leader_twice_in_committee_counterexample:
  "\<not> GUARD_MODE example_cfg
   \<and> GetFaultyLeaders (GetHeader example_block) = [(PubKey [2], Peer 2 2)]
   \<and> UpdateDSCommiteeCompositionAfterVC example_cfg (PubKey [1]) example_block
        [(PubKey [2], Peer 2 2), (PubKey [3], Peer 3 3), (PubKey [2], Peer 2 2)]
       = [(PubKey [3], Peer 3 3), (PubKey [2], Peer 2 2), (PubKey [2], Peer 2 2)]
   \<and> count_list
        (UpdateDSCommiteeCompositionAfterVC example_cfg (PubKey [1]) example_block
           [(PubKey [2], Peer 2 2), (PubKey [3], Peer 3 3), (PubKey [2], Peer 2 2)])
        (PubKey [2], Peer 2 2) = 2"
  by (simp add: UpdateDSCommiteeCompositionAfterVC_def example_cfg_def example_block_def
      example_header_def UpdateDSCommitee_loop_step
      del: UpdateDSCommitee_loop.simps(2))

text \<open>
  C8. In guard mode both mutators, the normal one and the one used on retrieval,
  return the committee they were given, for every block.
\<close>

theorem guard_mode_pins_committee:
  assumes "GUARD_MODE cfg"
  shows "UpdateDSCommiteeCompositionAfterVC cfg selfKey vcblock dsComm = dsComm
       \<and> UpdateRetrieveDSCommiteeCompositionAfterVC cfg vcblock dsComm = dsComm"
  using assms
  by (simp add: UpdateDSCommiteeCompositionAfterVC_def
      UpdateRetrieveDSCommiteeCompositionAfterVC_def)

theorem guard_mode_pins_committee_witness:
  "GUARD_MODE (example_cfg\<lparr>GUARD_MODE := True\<rparr>)
   \<and> GetFaultyLeaders (GetHeader example_block) = [(PubKey [2], Peer 2 2)]
   \<and> UpdateDSCommiteeCompositionAfterVC (example_cfg\<lparr>GUARD_MODE := True\<rparr>) (PubKey [1])
        example_block example_committee = example_committee
   \<and> UpdateRetrieveDSCommiteeCompositionAfterVC (example_cfg\<lparr>GUARD_MODE := True\<rparr>)
        example_block example_committee = example_committee"
proof -
  have g: "GUARD_MODE (example_cfg\<lparr>GUARD_MODE := True\<rparr>)" by simp
  have fl: "GetFaultyLeaders (GetHeader example_block) = [(PubKey [2], Peer 2 2)]"
    by (simp add: example_block_def example_header_def)
  note t = guard_mode_pins_committee
    [OF g, where vcblock = example_block and dsComm = example_committee
       and selfKey = "PubKey [1]"]
  show ?thesis
    by (intro conjI) (fact g fl t [THEN conjunct1] t [THEN conjunct2])+
qed

section \<open>Fan-out: the cluster size\<close>

text \<open>
  C9. Provided \<^verbatim>\<open>NUM_DS_ELECTION + 1\<close> does not overflow the \<^verbatim>\<open>unsigned int\<close>, the
  cluster size handed to the broadcast subsystem is the larger of
  \<^verbatim>\<open>NUM_FORWARDED_BLOCK_RECEIVERS_PER_SHARD\<close> and \<^verbatim>\<open>NUM_DS_ELECTION + 1\<close>; the message
  and the number of child clusters are handed over as they are.
\<close>

theorem cluster_size_is_max:
  assumes "unat (NUM_DS_ELECTION cfg) + 1 < 2 ^ 32"
  shows "unat (fst (snd (SendVCBlockToOtherShardNodes cfg vcblock_message)))
           = max (unat (NUM_FORWARDED_BLOCK_RECEIVERS_PER_SHARD cfg))
               (unat (NUM_DS_ELECTION cfg) + 1)
       \<and> fst (SendVCBlockToOtherShardNodes cfg vcblock_message) = vcblock_message
       \<and> snd (snd (SendVCBlockToOtherShardNodes cfg vcblock_message))
           = NUM_OF_TREEBASED_CHILD_CLUSTERS cfg"
proof -
  have s: "unat (NUM_DS_ELECTION cfg + 1) = unat (NUM_DS_ELECTION cfg) + 1"
    using assms by (simp add: unat_word_ariths)
  show ?thesis
    by (auto simp: SendVCBlockToOtherShardNodes_def Let_def s word_le_nat_alt)
qed

theorem cluster_size_is_max_witness:
  "unat (NUM_DS_ELECTION example_cfg) + 1 < 2 ^ 32
   \<and> unat (NUM_FORWARDED_BLOCK_RECEIVERS_PER_SHARD example_cfg) = 10
   \<and> unat (NUM_DS_ELECTION example_cfg) = 3
   \<and> unat (fst (snd (SendVCBlockToOtherShardNodes example_cfg example_frame))) = 10
   \<and> unat (NUM_DS_ELECTION (example_cfg\<lparr>NUM_DS_ELECTION := 12\<rparr>)) + 1 < 2 ^ 32
   \<and> unat (fst (snd (SendVCBlockToOtherShardNodes
                        (example_cfg\<lparr>NUM_DS_ELECTION := 12\<rparr>) example_frame))) = 13"
proof -
  have h: "unat (NUM_DS_ELECTION example_cfg) + 1 < 2 ^ 32"
    by (simp add: example_cfg_def)
  have f: "unat (NUM_FORWARDED_BLOCK_RECEIVERS_PER_SHARD example_cfg) = 10"
    and n: "unat (NUM_DS_ELECTION example_cfg) = 3"
    by (simp_all add: example_cfg_def)
  have a: "unat (fst (snd (SendVCBlockToOtherShardNodes example_cfg example_frame))) = 10"
    unfolding cluster_size_is_max [OF h, THEN conjunct1] f n by simp
  have h2: "unat (NUM_DS_ELECTION (example_cfg\<lparr>NUM_DS_ELECTION := 12\<rparr>)) + 1 < 2 ^ 32"
    by simp
  have f2: "unat (NUM_FORWARDED_BLOCK_RECEIVERS_PER_SHARD
                    (example_cfg\<lparr>NUM_DS_ELECTION := 12\<rparr>)) = 10"
    by (simp add: example_cfg_def)
  have b: "unat (fst (snd (SendVCBlockToOtherShardNodes
                             (example_cfg\<lparr>NUM_DS_ELECTION := 12\<rparr>) example_frame))) = 13"
    unfolding cluster_size_is_max [OF h2, THEN conjunct1] f2 by simp
  show ?thesis
    by (intro conjI) (fact h f n a h2 b)+
qed

text \<open>
  At the largest \<^verbatim>\<open>unsigned int\<close> the sum wraps to zero, and zero is what is handed
  over.
\<close>

theorem cluster_size_overflow_counterexample:
  "NUM_FORWARDED_BLOCK_RECEIVERS_PER_SHARD (example_cfg\<lparr>NUM_DS_ELECTION := 4294967295\<rparr>) = 10
   \<and> unat (NUM_DS_ELECTION (example_cfg\<lparr>NUM_DS_ELECTION := 4294967295\<rparr>)) = 4294967295
   \<and> fst (snd (SendVCBlockToOtherShardNodes
                 (example_cfg\<lparr>NUM_DS_ELECTION := 4294967295\<rparr>) example_frame)) = 0
   \<and> max (unat (NUM_FORWARDED_BLOCK_RECEIVERS_PER_SHARD
                  (example_cfg\<lparr>NUM_DS_ELECTION := 4294967295\<rparr>)))
          (unat (NUM_DS_ELECTION (example_cfg\<lparr>NUM_DS_ELECTION := 4294967295\<rparr>)) + 1)
       = 4294967296
   \<and> max (NUM_FORWARDED_BLOCK_RECEIVERS_PER_SHARD
             (example_cfg\<lparr>NUM_DS_ELECTION := 4294967295\<rparr>))
          (NUM_DS_ELECTION (example_cfg\<lparr>NUM_DS_ELECTION := 4294967295\<rparr>) + 1)
       = 10"
  by (simp add: SendVCBlockToOtherShardNodes_def example_cfg_def Let_def)

section \<open>Difficulty retarget: the prose against the test's vectors\<close>

text \<open>
  The test \<^verbatim>\<open>difficulty_adjustment_small_network\<close> requires 4, 5 and 5 on the three
  inputs below. The rule as the spec's section 4.6 words it gives 3, 4 and 6: with 20
  current nodes against 200 expected there is no step up, the shortfall of 88 and 90
  percent is below the threshold of 99, and only the second epoch is a multiple of the
  period. The function itself is not in the file, so the vectors of claim C7 are
  neither derived nor refuted here.
\<close>

lemma CalculateNewDifficultyCore_prose_on_test_vectors:
  "CalculateNewDifficultyCore 3 3 20 23 200 99 200 10000 = Some 3"
  "CalculateNewDifficultyCore 3 3 20 23 200 99 10000 10000 = Some 4"
  "CalculateNewDifficultyCore 6 3 20 19 200 99 10001 10000 = Some 6"
  by (simp_all add: CalculateNewDifficultyCore_def truncated_div_def Let_def)

end
